theory Spec2Isabelle
  imports Complex_Main "HOL-Library.Word"
begin

section \<open>Engine value types\<close>

text \<open>
  The engine types the repository's structs are built from. An \<open>FName\<close> is represented
  by the text it compares by; \<open>NAME_None\<close> is the name of a default-constructed \<open>FName\<close>.
  \<open>float\<close> and \<open>double\<close> fields hold exact reals: the structs only carry these
  values, and the formulas below are read as the closed forms the source writes down.
\<close>

type_synonym FName = string
type_synonym FString = string
type_synonym FText = string

definition NAME_None :: FName where
  "NAME_None = ''None''"

record FVector =
  X :: real
  Y :: real
  Z :: real

definition FVector_make :: "real \<Rightarrow> real \<Rightarrow> real \<Rightarrow> FVector" where
  "FVector_make x y z = \<lparr>FVector.X = x, FVector.Y = y, FVector.Z = z\<rparr>"

definition ZeroVector :: FVector where
  "ZeroVector = FVector_make 0 0 0"

record FQuat =
  QX :: real
  QY :: real
  QZ :: real
  QW :: real

record FTransform =
  Rotation :: FQuat
  Translation :: FVector
  Scale3D :: FVector

definition FTransform_Identity :: FTransform where
  "FTransform_Identity =
     \<lparr>Rotation = \<lparr>QX = 0, QY = 0, QZ = 0, QW = 1\<rparr>,
      Translation = ZeroVector,
      Scale3D = FVector_make 1 1 1\<rparr>"

record FGuid =
  GA :: "32 word"
  GB :: "32 word"
  GC :: "32 word"
  GD :: "32 word"

definition FGuid_default :: FGuid where
  "FGuid_default = \<lparr>GA = 0, GB = 0, GC = 0, GD = 0\<rparr>"

text \<open>\<open>FMath::Clamp(X, Min, Max)\<close> is \<open>Max(Min(X, Max), Min)\<close>.\<close>

definition FMath_Clamp :: "real \<Rightarrow> real \<Rightarrow> real \<Rightarrow> real" where
  "FMath_Clamp x lo hi = max (min x hi) lo"

section \<open>SpecTypes.h: spec identifiers, data assets and runtime spec structs\<close>

record FSurfaceSpecId =
  Id :: FName

record FMediumSpecId =
  Id :: FName

record FDamageSpecId =
  Id :: FName

definition FSurfaceSpecId_IsValid :: "FSurfaceSpecId \<Rightarrow> bool" where
  "FSurfaceSpecId_IsValid i = (FSurfaceSpecId.Id i \<noteq> NAME_None)"

definition FMediumSpecId_IsValid :: "FMediumSpecId \<Rightarrow> bool" where
  "FMediumSpecId_IsValid i = (FMediumSpecId.Id i \<noteq> NAME_None)"

text \<open>A curve asset is the list of its (time, value) keys.\<close>

type_synonym FRuntimeFloatCurve = "(real \<times> real) list"

record USurfaceSpec =
  SpecId :: FSurfaceSpecId
  DisplayName :: FText
  FrictionStatic :: real
  FrictionDynamic :: real
  Restitution :: real
  Compliance :: real
  DeformationStrength :: real
  DeformationRecoveryRate :: real
  WetnessResponseCurve :: FRuntimeFloatCurve
  TemperatureResponseCurve :: FRuntimeFloatCurve
  ThermalConductivityWmK :: real
  HeatCapacityJkgK :: real
  Emissivity01 :: real
  FXProfileId :: FName
  PhysicalMaterial :: FString

text \<open>The constructor \<open>USurfaceSpec::USurfaceSpec()\<close> with the member initialisers.\<close>

definition USurfaceSpec_new :: USurfaceSpec where
  "USurfaceSpec_new =
     \<lparr>USurfaceSpec.SpecId = \<lparr>FSurfaceSpecId.Id = NAME_None\<rparr>,
      USurfaceSpec.DisplayName = [],
      USurfaceSpec.FrictionStatic = 0.8,
      USurfaceSpec.FrictionDynamic = 0.6,
      USurfaceSpec.Restitution = 0.2,
      USurfaceSpec.Compliance = 0,
      USurfaceSpec.DeformationStrength = 0,
      USurfaceSpec.DeformationRecoveryRate = 0,
      USurfaceSpec.WetnessResponseCurve = [(0, 1), (1, 0.7)],
      USurfaceSpec.TemperatureResponseCurve = [(233, 0.3), (273, 0.5), (288, 1), (373, 1)],
      USurfaceSpec.ThermalConductivityWmK = 1,
      USurfaceSpec.HeatCapacityJkgK = 1000,
      USurfaceSpec.Emissivity01 = 0.9,
      USurfaceSpec.FXProfileId = NAME_None,
      USurfaceSpec.PhysicalMaterial = []\<rparr>"

record UMediumSpec =
  SpecId :: FMediumSpecId
  DisplayName :: FText
  Density :: real
  ViscosityProxy :: real
  Pressure :: real
  TemperatureK :: real
  ThermalConductivityWmK :: real
  HeatCapacityJkgK :: real
  BackgroundRadiationTempK :: real
  SolarIrradianceWm2 :: real
  SunDirection :: FVector
  GravityVector :: FVector
  LinearDragCoeff :: real
  QuadraticDragCoeff :: real
  BuoyancyScale :: real
  SpeedOfSound :: real
  SoundAttenuationMultiplier :: real
  bIsBreathable :: bool
  bAllowsPrecipitation :: bool

definition UMediumSpec_new :: UMediumSpec where
  "UMediumSpec_new =
     \<lparr>UMediumSpec.SpecId = \<lparr>FMediumSpecId.Id = NAME_None\<rparr>,
      UMediumSpec.DisplayName = [],
      UMediumSpec.Density = 1.225,
      UMediumSpec.ViscosityProxy = 0.001,
      UMediumSpec.Pressure = 101.325,
      UMediumSpec.TemperatureK = 288,
      UMediumSpec.ThermalConductivityWmK = 0.026,
      UMediumSpec.HeatCapacityJkgK = 1005,
      UMediumSpec.BackgroundRadiationTempK = 288,
      UMediumSpec.SolarIrradianceWm2 = 0,
      UMediumSpec.SunDirection = FVector_make 0 0 (- 1),
      UMediumSpec.GravityVector = FVector_make 0 0 (- 980),
      UMediumSpec.LinearDragCoeff = 0.1,
      UMediumSpec.QuadraticDragCoeff = 0.01,
      UMediumSpec.BuoyancyScale = 1,
      UMediumSpec.SpeedOfSound = 343,
      UMediumSpec.SoundAttenuationMultiplier = 1,
      UMediumSpec.bIsBreathable = True,
      UMediumSpec.bAllowsPrecipitation = True\<rparr>"

record FTemperatureResponseLUT =
  MinTempK :: real
  MaxTempK :: real
  Samples :: "real list"

record FRuntimeSurfaceSpec =
  SpecId :: FName
  Version :: "32 word"
  DisplayName :: FString
  StaticFriction :: real
  DynamicFriction :: real
  Restitution :: real
  WetFrictionMultiplier :: real
  DeformationStrength :: real
  DeformationRatePerS :: real
  MaxDeformationDepthCm :: real
  RecoveryRatePerS :: real
  RollingResistance :: real
  FootstepImpulseDamping :: real
  ThermalConductivityWmK :: real
  HeatCapacityJkgK :: real
  Emissivity01 :: real
  bHasTemperatureResponse :: bool
  TempFrictionLUT :: FTemperatureResponseLUT
  bIsDeformable :: bool
  bIsSlippery :: bool
  bAffectedByWetness :: bool

text \<open>\<open>FRuntimeSurfaceSpec() = default\<close>: every member at its initialiser.\<close>

definition FRuntimeSurfaceSpec_default :: FRuntimeSurfaceSpec where
  "FRuntimeSurfaceSpec_default =
     \<lparr>FRuntimeSurfaceSpec.SpecId = NAME_None,
      FRuntimeSurfaceSpec.Version = 1,
      FRuntimeSurfaceSpec.DisplayName = [],
      FRuntimeSurfaceSpec.StaticFriction = 0.8,
      FRuntimeSurfaceSpec.DynamicFriction = 0.6,
      FRuntimeSurfaceSpec.Restitution = 0.2,
      FRuntimeSurfaceSpec.WetFrictionMultiplier = 0.7,
      FRuntimeSurfaceSpec.DeformationStrength = 0,
      FRuntimeSurfaceSpec.DeformationRatePerS = 0,
      FRuntimeSurfaceSpec.MaxDeformationDepthCm = 0,
      FRuntimeSurfaceSpec.RecoveryRatePerS = 0,
      FRuntimeSurfaceSpec.RollingResistance = 0.01,
      FRuntimeSurfaceSpec.FootstepImpulseDamping = 0,
      FRuntimeSurfaceSpec.ThermalConductivityWmK = 1,
      FRuntimeSurfaceSpec.HeatCapacityJkgK = 1000,
      FRuntimeSurfaceSpec.Emissivity01 = 0.9,
      FRuntimeSurfaceSpec.bHasTemperatureResponse = False,
      FRuntimeSurfaceSpec.TempFrictionLUT = \<lparr>MinTempK = 200, MaxTempK = 350, Samples = []\<rparr>,
      FRuntimeSurfaceSpec.bIsDeformable = False,
      FRuntimeSurfaceSpec.bIsSlippery = False,
      FRuntimeSurfaceSpec.bAffectedByWetness = True\<rparr>"

record FRuntimeMediumSpec =
  SpecId :: FName
  Version :: "32 word"
  DisplayName :: FString
  Density :: real
  LinearDragCoeff :: real
  QuadraticDragCoeff :: real
  Viscosity :: real
  PressurePa :: real
  TemperatureK :: real
  ThermalConductivityWmK :: real
  HeatCapacityJkgK :: real
  SolarIrradiance_Wm2 :: real
  SunDirection :: FVector
  Gravity :: FVector
  SpeedOfSound :: real
  AbsorptionCoefficient :: real

definition FRuntimeMediumSpec_default :: FRuntimeMediumSpec where
  "FRuntimeMediumSpec_default =
     \<lparr>FRuntimeMediumSpec.SpecId = NAME_None,
      FRuntimeMediumSpec.Version = 1,
      FRuntimeMediumSpec.DisplayName = [],
      FRuntimeMediumSpec.Density = 1.225,
      FRuntimeMediumSpec.LinearDragCoeff = 0.1,
      FRuntimeMediumSpec.QuadraticDragCoeff = 0.01,
      FRuntimeMediumSpec.Viscosity = 0.000018,
      FRuntimeMediumSpec.PressurePa = 101325,
      FRuntimeMediumSpec.TemperatureK = 288,
      FRuntimeMediumSpec.ThermalConductivityWmK = 0.026,
      FRuntimeMediumSpec.HeatCapacityJkgK = 1005,
      FRuntimeMediumSpec.SolarIrradiance_Wm2 = 800,
      FRuntimeMediumSpec.SunDirection = FVector_make 1 0 0,
      FRuntimeMediumSpec.Gravity = FVector_make 0 0 (- 980),
      FRuntimeMediumSpec.SpeedOfSound = 343,
      FRuntimeMediumSpec.AbsorptionCoefficient = 0.01\<rparr>"

text \<open>
  \<open>FRuntimeMediumSpec::ValidateAndClamp\<close>: clamps nine members in the order of the
  source and reports whether any of them changed.
\<close>

definition FRuntimeMediumSpec_ValidateAndClamp :: "FRuntimeMediumSpec \<Rightarrow> bool \<times> FRuntimeMediumSpec" where
  "FRuntimeMediumSpec_ValidateAndClamp s =
     (let s' = s\<lparr>FRuntimeMediumSpec.Density := FMath_Clamp (FRuntimeMediumSpec.Density s) 0 2000,
                  FRuntimeMediumSpec.LinearDragCoeff := FMath_Clamp (FRuntimeMediumSpec.LinearDragCoeff s) 0 10,
                  FRuntimeMediumSpec.QuadraticDragCoeff := FMath_Clamp (FRuntimeMediumSpec.QuadraticDragCoeff s) 0 10,
                  FRuntimeMediumSpec.Viscosity := FMath_Clamp (FRuntimeMediumSpec.Viscosity s) 0 100,
                  FRuntimeMediumSpec.PressurePa := FMath_Clamp (FRuntimeMediumSpec.PressurePa s) 0 100000000,
                  FRuntimeMediumSpec.TemperatureK := FMath_Clamp (FRuntimeMediumSpec.TemperatureK s) 0 10000,
                  FRuntimeMediumSpec.ThermalConductivityWmK :=
                    FMath_Clamp (FRuntimeMediumSpec.ThermalConductivityWmK s) 0 1000,
                  FRuntimeMediumSpec.SpeedOfSound := FMath_Clamp (FRuntimeMediumSpec.SpeedOfSound s) 0 10000,
                  FRuntimeMediumSpec.AbsorptionCoefficient :=
                    FMath_Clamp (FRuntimeMediumSpec.AbsorptionCoefficient s) 0 1\<rparr>
      in (s' \<noteq> s, s'))"

text \<open>
  \<open>UMediumSpec::ToStruct\<close> (SpecTypes.cpp): the conversion of a medium data asset to the
  runtime struct. The members it does not assign keep the value the caller's struct had.
\<close>

definition UMediumSpec_ToStruct :: "UMediumSpec \<Rightarrow> FRuntimeMediumSpec \<Rightarrow> bool \<times> FRuntimeMediumSpec" where
  "UMediumSpec_ToStruct a out =
     (let o1 = out\<lparr>FRuntimeMediumSpec.SpecId := FMediumSpecId.Id (UMediumSpec.SpecId a),
                    FRuntimeMediumSpec.Version := 1,
                    FRuntimeMediumSpec.DisplayName := UMediumSpec.DisplayName a,
                    FRuntimeMediumSpec.Density := UMediumSpec.Density a,
                    FRuntimeMediumSpec.LinearDragCoeff := UMediumSpec.LinearDragCoeff a,
                    FRuntimeMediumSpec.QuadraticDragCoeff := UMediumSpec.QuadraticDragCoeff a,
                    FRuntimeMediumSpec.Viscosity := UMediumSpec.ViscosityProxy a,
                    FRuntimeMediumSpec.PressurePa := UMediumSpec.Pressure a * 1000,
                    FRuntimeMediumSpec.TemperatureK := UMediumSpec.TemperatureK a,
                    FRuntimeMediumSpec.ThermalConductivityWmK :=
                      (if UMediumSpec.ThermalConductivityWmK a > 0
                       then UMediumSpec.ThermalConductivityWmK a else 0.026),
                    FRuntimeMediumSpec.Gravity := UMediumSpec.GravityVector a,
                    FRuntimeMediumSpec.SpeedOfSound := UMediumSpec.SpeedOfSound a,
                    FRuntimeMediumSpec.AbsorptionCoefficient :=
                      FMath_Clamp (1 - UMediumSpec.SoundAttenuationMultiplier a) 0 1\<rparr>
      in (True, snd (FRuntimeMediumSpec_ValidateAndClamp o1)))"

section \<open>SurfaceQuerySubsystem and EnvironmentSubsystem: spec registries\<close>

text \<open>
  The registries of the two world subsystems. \<open>UPhysicalMaterial*\<close> keys are object
  identities (naturals); a registered asset pointer is represented by the asset it
  points to, and a null pointer by \<open>None\<close>.
\<close>

type_synonym UPhysicalMaterialPtr = nat

record USurfaceQuerySubsystem =
  SurfaceSpecMap :: "UPhysicalMaterialPtr \<rightharpoonup> USurfaceSpec"
  DefaultSurfaceSpec :: "USurfaceSpec option"
  RuntimeSurfaceSpecs :: "FName \<rightharpoonup> FRuntimeSurfaceSpec"

record UEnvironmentSubsystem =
  MediumSpecMap :: "FName \<rightharpoonup> UMediumSpec"
  DefaultMediumSpec :: "UMediumSpec option"
  RuntimeMediumSpecs :: "FName \<rightharpoonup> FRuntimeMediumSpec"

definition USurfaceQuerySubsystem_new :: USurfaceQuerySubsystem where
  "USurfaceQuerySubsystem_new =
     \<lparr>SurfaceSpecMap = Map.empty, DefaultSurfaceSpec = None, RuntimeSurfaceSpecs = Map.empty\<rparr>"

definition UEnvironmentSubsystem_new :: UEnvironmentSubsystem where
  "UEnvironmentSubsystem_new =
     \<lparr>MediumSpecMap = Map.empty, DefaultMediumSpec = None, RuntimeMediumSpecs = Map.empty\<rparr>"

text \<open>The static fallback specs, built by the initialiser lambdas of the two .cpp files.\<close>

definition FallbackSurfaceSpec :: FRuntimeSurfaceSpec where
  "FallbackSurfaceSpec =
     FRuntimeSurfaceSpec_default
       \<lparr>FRuntimeSurfaceSpec.DisplayName := ''Default'',
        FRuntimeSurfaceSpec.StaticFriction := 0.7,
        FRuntimeSurfaceSpec.DynamicFriction := 0.5,
        FRuntimeSurfaceSpec.Restitution := 0.3,
        FRuntimeSurfaceSpec.bIsDeformable := False,
        FRuntimeSurfaceSpec.bIsSlippery := False,
        FRuntimeSurfaceSpec.bAffectedByWetness := False,
        FRuntimeSurfaceSpec.ThermalConductivityWmK := 0.026,
        FRuntimeSurfaceSpec.HeatCapacityJkgK := 1005,
        FRuntimeSurfaceSpec.Emissivity01 := 0.9\<rparr>"

definition FallbackMediumSpec :: FRuntimeMediumSpec where
  "FallbackMediumSpec =
     FRuntimeMediumSpec_default
       \<lparr>FRuntimeMediumSpec.DisplayName := ''Earth Atmosphere'',
        FRuntimeMediumSpec.Density := 1.225,
        FRuntimeMediumSpec.QuadraticDragCoeff := 0.5,
        FRuntimeMediumSpec.Viscosity := 0.000018,
        FRuntimeMediumSpec.SpeedOfSound := 343,
        FRuntimeMediumSpec.AbsorptionCoefficient := 0.01\<rparr>"

text \<open>Registration: the DataAsset workflow and the runtime (SpecPack / JSON) workflow.\<close>

definition RegisterSurfaceSpec ::
    "UPhysicalMaterialPtr option \<Rightarrow> USurfaceSpec option \<Rightarrow> USurfaceQuerySubsystem \<Rightarrow> USurfaceQuerySubsystem" where
  "RegisterSurfaceSpec PhysMat Spec s =
     (case (PhysMat, Spec) of
        (Some p, Some a) \<Rightarrow> s\<lparr>SurfaceSpecMap := (SurfaceSpecMap s)(p \<mapsto> a)\<rparr>
      | _ \<Rightarrow> s)"

definition RegisterRuntimeSurfaceSpec ::
    "FSurfaceSpecId \<Rightarrow> FRuntimeSurfaceSpec \<Rightarrow> USurfaceQuerySubsystem \<Rightarrow> USurfaceQuerySubsystem" where
  "RegisterRuntimeSurfaceSpec i Spec s =
     s\<lparr>RuntimeSurfaceSpecs := (RuntimeSurfaceSpecs s)(FSurfaceSpecId.Id i \<mapsto> Spec)\<rparr>"

definition RegisterMediumSpec ::
    "FMediumSpecId \<Rightarrow> UMediumSpec option \<Rightarrow> UEnvironmentSubsystem \<Rightarrow> UEnvironmentSubsystem" where
  "RegisterMediumSpec i Spec s =
     (case Spec of
        Some a \<Rightarrow> if FMediumSpecId_IsValid i
                  then s\<lparr>MediumSpecMap := (MediumSpecMap s)(FMediumSpecId.Id i \<mapsto> a)\<rparr> else s
      | None \<Rightarrow> s)"

definition RegisterRuntimeMediumSpec ::
    "FMediumSpecId \<Rightarrow> FRuntimeMediumSpec \<Rightarrow> UEnvironmentSubsystem \<Rightarrow> UEnvironmentSubsystem" where
  "RegisterRuntimeMediumSpec i Spec s =
     s\<lparr>RuntimeMediumSpecs := (RuntimeMediumSpecs s)(FMediumSpecId.Id i \<mapsto> Spec)\<rparr>"

text \<open>
  \<open>ResolveSurfaceSpec\<close> and \<open>ResolveMediumSpec\<close>. The C++ functions write \<open>OutSpec\<close>
  and return a flag; the model returns the pair (flag, value written to \<open>OutSpec\<close>).
  Step 2 of either function is a comment only, so the model has no branch for it.
\<close>

definition ResolveSurfaceSpec :: "USurfaceQuerySubsystem \<Rightarrow> FSurfaceSpecId \<Rightarrow> bool \<times> FRuntimeSurfaceSpec" where
  "ResolveSurfaceSpec s i =
     (case RuntimeSurfaceSpecs s (FSurfaceSpecId.Id i) of
        Some RuntimeSpec \<Rightarrow> (True, RuntimeSpec)
      | None \<Rightarrow> (False, FallbackSurfaceSpec))"

definition ResolveMediumSpec :: "UEnvironmentSubsystem \<Rightarrow> FMediumSpecId \<Rightarrow> bool \<times> FRuntimeMediumSpec" where
  "ResolveMediumSpec s i =
     (case RuntimeMediumSpecs s (FMediumSpecId.Id i) of
        Some RuntimeSpec \<Rightarrow> (True, RuntimeSpec)
      | None \<Rightarrow> (False, FallbackMediumSpec))"

text \<open>
  The three-tier resolution as the specification words it, for comparison with the two
  functions above: runtime registry, then DataAsset registry (converted with
  \<open>ToStruct\<close>), then the static fallback.
\<close>

definition ResolveMediumSpec_three_tier :: "UEnvironmentSubsystem \<Rightarrow> FMediumSpecId \<Rightarrow> bool \<times> FRuntimeMediumSpec" where
  "ResolveMediumSpec_three_tier s i =
     (case RuntimeMediumSpecs s (FMediumSpecId.Id i) of
        Some RuntimeSpec \<Rightarrow> (True, RuntimeSpec)
      | None \<Rightarrow>
          (case MediumSpecMap s (FMediumSpecId.Id i) of
             Some Asset \<Rightarrow> (True, snd (UMediumSpec_ToStruct Asset FRuntimeMediumSpec_default))
           | None \<Rightarrow> (False, FallbackMediumSpec)))"

section \<open>DeltaTypes.h: cell keys and delta records\<close>

record FWorldCellKey =
  X :: "32 word"
  Y :: "32 word"
  LOD :: "32 word"

definition FWorldCellKey_make :: "32 word \<Rightarrow> 32 word \<Rightarrow> 32 word \<Rightarrow> FWorldCellKey" where
  "FWorldCellKey_make x y l = \<lparr>FWorldCellKey.X = x, FWorldCellKey.Y = y, FWorldCellKey.LOD = l\<rparr>"

text \<open>\<open>operator==\<close> of the key: the three coordinates agree.\<close>

definition FWorldCellKey_eq :: "FWorldCellKey \<Rightarrow> FWorldCellKey \<Rightarrow> bool" where
  "FWorldCellKey_eq a b =
     (FWorldCellKey.X a = FWorldCellKey.X b \<and> FWorldCellKey.Y a = FWorldCellKey.Y b
      \<and> FWorldCellKey.LOD a = FWorldCellKey.LOD b)"

datatype ESurfaceDeltaOperation = Set | Add | Subtract | Multiply | Max | Min

datatype ESurfaceDeltaChannel =
  SnowDepth | SnowCompaction | Wetness | TemperatureDelta | Toxicity | CustomA | CustomB

record FSurfaceTileDelta =
  CellKey :: FWorldCellKey
  TileIndex :: "32 word"
  WorldLocation :: FVector
  Radius :: real
  Channel :: ESurfaceDeltaChannel
  Operation :: ESurfaceDeltaOperation
  Value :: real
  Timestamp :: real
  AuthorPlayerId :: FName

record FFractureDelta =
  CellKey :: FWorldCellKey
  ActorGuid :: FGuid
  DamageSpecId :: FDamageSpecId
  BrokenChunks :: "32 word list"
  bIsSleeping :: bool
  Timestamp :: real

record FTransformDelta =
  CellKey :: FWorldCellKey
  ActorGuid :: FGuid
  Transform :: FTransform
  bPhysicsEnabled :: bool
  bIsSleeping :: bool
  Timestamp :: real

record FSpawnDelta =
  CellKey :: FWorldCellKey
  ActorGuid :: FGuid
  PCGInstanceId :: "64 word"
  ActorClass :: FString
  SpawnTransform :: FTransform
  Timestamp :: real

record FRemoveDelta =
  CellKey :: FWorldCellKey
  ActorGuid :: FGuid
  RemovalReason :: FName
  Timestamp :: real

record FAssemblyDelta =
  CellKey :: FWorldCellKey
  AssemblyGuid :: FGuid
  AssemblySpecId :: FName
  Transform :: FTransform
  bIsSleeping :: bool
  DamagedParts :: "32 word list"
  StateVariables :: "(FName \<times> real) list"
  Timestamp :: real

text \<open>The default-constructed records (\<open>= default\<close> constructors, member initialisers).\<close>

definition FSurfaceTileDelta_default :: FSurfaceTileDelta where
  "FSurfaceTileDelta_default =
     \<lparr>FSurfaceTileDelta.CellKey = FWorldCellKey_make 0 0 0,
      TileIndex = 0, WorldLocation = ZeroVector, Radius = 50,
      Channel = SnowDepth, Operation = Add, Value = 0,
      FSurfaceTileDelta.Timestamp = 0, AuthorPlayerId = NAME_None\<rparr>"

definition FFractureDelta_default :: FFractureDelta where
  "FFractureDelta_default =
     \<lparr>FFractureDelta.CellKey = FWorldCellKey_make 0 0 0,
      FFractureDelta.ActorGuid = FGuid_default,
      DamageSpecId = \<lparr>FDamageSpecId.Id = NAME_None\<rparr>, BrokenChunks = [],
      FFractureDelta.bIsSleeping = True, FFractureDelta.Timestamp = 0\<rparr>"

definition FTransformDelta_default :: FTransformDelta where
  "FTransformDelta_default =
     \<lparr>FTransformDelta.CellKey = FWorldCellKey_make 0 0 0,
      FTransformDelta.ActorGuid = FGuid_default,
      FTransformDelta.Transform = FTransform_Identity, bPhysicsEnabled = False,
      FTransformDelta.bIsSleeping = True, FTransformDelta.Timestamp = 0\<rparr>"

definition FSpawnDelta_default :: FSpawnDelta where
  "FSpawnDelta_default =
     \<lparr>FSpawnDelta.CellKey = FWorldCellKey_make 0 0 0,
      FSpawnDelta.ActorGuid = FGuid_default,
      PCGInstanceId = - 1, ActorClass = [], SpawnTransform = FTransform_Identity,
      FSpawnDelta.Timestamp = 0\<rparr>"

definition FRemoveDelta_default :: FRemoveDelta where
  "FRemoveDelta_default =
     \<lparr>FRemoveDelta.CellKey = FWorldCellKey_make 0 0 0,
      FRemoveDelta.ActorGuid = FGuid_default,
      RemovalReason = NAME_None, FRemoveDelta.Timestamp = 0\<rparr>"

definition FAssemblyDelta_default :: FAssemblyDelta where
  "FAssemblyDelta_default =
     \<lparr>FAssemblyDelta.CellKey = FWorldCellKey_make 0 0 0,
      AssemblyGuid = FGuid_default, AssemblySpecId = NAME_None,
      FAssemblyDelta.Transform = FTransform_Identity,
      FAssemblyDelta.bIsSleeping = True, DamagedParts = [], StateVariables = [],
      FAssemblyDelta.Timestamp = 0\<rparr>"

section \<open>DeltaTypes.h: the reflected properties of the delta structs\<close>

text \<open>
  Each delta struct is a \<open>USTRUCT\<close> whose members are \<open>UPROPERTY\<close>s; the list of
  (member name, member type) pairs below is the declaration of each struct, member by
  member in source order. It is the data \<open>Flush\<close> serialises through
  \<open>FJsonObjectConverter::UStructToJsonObject\<close>.
\<close>

datatype UPropertyType =
  TInt32 | TInt64 | TFloat | TDouble | TBool | TFNameT | TFStringT
| TStruct string | TEnum string | TSoftClassPtr string
| TArray UPropertyType | TMap UPropertyType UPropertyType

type_synonym UStructDecl = "(string \<times> UPropertyType) list"

definition FSurfaceTileDelta_decl :: UStructDecl where
  "FSurfaceTileDelta_decl =
     [(''CellKey'', TStruct ''FWorldCellKey''),
      (''TileIndex'', TInt32),
      (''WorldLocation'', TStruct ''FVector''),
      (''Radius'', TFloat),
      (''Channel'', TEnum ''ESurfaceDeltaChannel''),
      (''Operation'', TEnum ''ESurfaceDeltaOperation''),
      (''Value'', TFloat),
      (''Timestamp'', TDouble),
      (''AuthorPlayerId'', TFNameT)]"

definition FFractureDelta_decl :: UStructDecl where
  "FFractureDelta_decl =
     [(''CellKey'', TStruct ''FWorldCellKey''),
      (''ActorGuid'', TStruct ''FGuid''),
      (''DamageSpecId'', TStruct ''FDamageSpecId''),
      (''BrokenChunks'', TArray TInt32),
      (''bIsSleeping'', TBool),
      (''Timestamp'', TDouble)]"

definition FTransformDelta_decl :: UStructDecl where
  "FTransformDelta_decl =
     [(''CellKey'', TStruct ''FWorldCellKey''),
      (''ActorGuid'', TStruct ''FGuid''),
      (''Transform'', TStruct ''FTransform''),
      (''bPhysicsEnabled'', TBool),
      (''bIsSleeping'', TBool),
      (''Timestamp'', TDouble)]"

definition FSpawnDelta_decl :: UStructDecl where
  "FSpawnDelta_decl =
     [(''CellKey'', TStruct ''FWorldCellKey''),
      (''ActorGuid'', TStruct ''FGuid''),
      (''PCGInstanceId'', TInt64),
      (''ActorClass'', TSoftClassPtr ''AActor''),
      (''SpawnTransform'', TStruct ''FTransform''),
      (''Timestamp'', TDouble)]"

definition FRemoveDelta_decl :: UStructDecl where
  "FRemoveDelta_decl =
     [(''CellKey'', TStruct ''FWorldCellKey''),
      (''ActorGuid'', TStruct ''FGuid''),
      (''RemovalReason'', TFNameT),
      (''Timestamp'', TDouble)]"

definition FAssemblyDelta_decl :: UStructDecl where
  "FAssemblyDelta_decl =
     [(''CellKey'', TStruct ''FWorldCellKey''),
      (''AssemblyGuid'', TStruct ''FGuid''),
      (''AssemblySpecId'', TFNameT),
      (''Transform'', TStruct ''FTransform''),
      (''bIsSleeping'', TBool),
      (''DamagedParts'', TArray TInt32),
      (''StateVariables'', TMap TFNameT TFloat),
      (''Timestamp'', TDouble)]"

text \<open>What a struct declaration carries.\<close>

definition carries_CellKey :: "UStructDecl \<Rightarrow> bool" where
  "carries_CellKey ps = ((''CellKey'', TStruct ''FWorldCellKey'') \<in> set ps)"

definition carries_Guid :: "UStructDecl \<Rightarrow> bool" where
  "carries_Guid ps = (TStruct ''FGuid'' \<in> set (map snd ps))"

definition carries_Timestamp :: "UStructDecl \<Rightarrow> bool" where
  "carries_Timestamp ps = ((''Timestamp'', TDouble) \<in> set ps)"

definition carries_channel_operation_value :: "UStructDecl \<Rightarrow> bool" where
  "carries_channel_operation_value ps =
     ((''Channel'', TEnum ''ESurfaceDeltaChannel'') \<in> set ps
      \<and> (''Operation'', TEnum ''ESurfaceDeltaOperation'') \<in> set ps
      \<and> (''Value'', TFloat) \<in> set ps)"

definition carries_transform :: "UStructDecl \<Rightarrow> bool" where
  "carries_transform ps = (TStruct ''FTransform'' \<in> set (map snd ps))"

definition carries_damaged_parts :: "UStructDecl \<Rightarrow> bool" where
  "carries_damaged_parts ps = ((''DamagedParts'', TArray TInt32) \<in> set ps)"

definition carries_broken_chunks :: "UStructDecl \<Rightarrow> bool" where
  "carries_broken_chunks ps = ((''BrokenChunks'', TArray TInt32) \<in> set ps)"

definition carries_removal_reason :: "UStructDecl \<Rightarrow> bool" where
  "carries_removal_reason ps = ((''RemovalReason'', TFNameT) \<in> set ps)"

text \<open>
  The payload as the specification lists it: channel + operation + value, or a
  transform, or a damaged-part list. The list of broken chunks of a fracture delta is
  read as a damaged-part list.
\<close>

definition carries_listed_payload :: "UStructDecl \<Rightarrow> bool" where
  "carries_listed_payload ps =
     (carries_channel_operation_value ps \<or> carries_transform ps
      \<or> carries_damaged_parts ps \<or> carries_broken_chunks ps)"

text \<open>The claim as the specification words it, for one struct declaration.\<close>

definition carries_all_four :: "UStructDecl \<Rightarrow> bool" where
  "carries_all_four ps =
     (carries_CellKey ps \<and> carries_Guid ps \<and> carries_listed_payload ps \<and> carries_Timestamp ps)"

section \<open>FileDeltaStore: the in-memory delta cache\<close>

text \<open>
  A \<open>TMap<FWorldCellKey, TArray<D>>\<close> is a finite map from cell keys to lists. A
  \<open>TSet<FWorldCellKey>\<close> is the list of its elements without repetition: \<open>Add\<close> keeps an
  element that is already present, \<open>Array()\<close> yields the elements, \<open>Num()\<close> their number.
\<close>

definition TMap_FindOrAdd_Add :: "('k \<rightharpoonup> 'v list) \<Rightarrow> 'k \<Rightarrow> 'v \<Rightarrow> ('k \<rightharpoonup> 'v list)" where
  "TMap_FindOrAdd_Add m k v = m(k \<mapsto> (case m k of None \<Rightarrow> [] | Some vs \<Rightarrow> vs) @ [v])"

definition TSet_Add :: "'k list \<Rightarrow> 'k \<Rightarrow> 'k list" where
  "TSet_Add ks k = (if k \<in> set ks then ks else ks @ [k])"

definition TSet_Remove :: "'k list \<Rightarrow> 'k \<Rightarrow> 'k list" where
  "TSet_Remove ks k = filter (\<lambda>x. x \<noteq> k) ks"

record UFileDeltaStore =
  CurrentWorldName :: FString
  BaseSaveDirectory :: FString
  bIsInitialized :: bool
  SurfaceDeltas :: "FWorldCellKey \<rightharpoonup> FSurfaceTileDelta list"
  FractureDeltas :: "FWorldCellKey \<rightharpoonup> FFractureDelta list"
  TransformDeltas :: "FWorldCellKey \<rightharpoonup> FTransformDelta list"
  SpawnDeltas :: "FWorldCellKey \<rightharpoonup> FSpawnDelta list"
  RemoveDeltas :: "FWorldCellKey \<rightharpoonup> FRemoveDelta list"
  AssemblyDeltas :: "FWorldCellKey \<rightharpoonup> FAssemblyDelta list"
  DirtyCells :: "FWorldCellKey list"

text \<open>\<open>FString operator/\<close>: path concatenation with a separator.\<close>

definition path_join :: "FString \<Rightarrow> FString \<Rightarrow> FString" where
  "path_join a b = a @ ''/'' @ b"

text \<open>
  The constructor; \<open>ProjectSavedDir\<close> is what \<open>FPaths::ProjectSavedDir()\<close> returns.
\<close>

definition UFileDeltaStore_new :: "FString \<Rightarrow> UFileDeltaStore" where
  "UFileDeltaStore_new ProjectSavedDir =
     \<lparr>CurrentWorldName = [],
      BaseSaveDirectory = path_join ProjectSavedDir ''GameSaveData'',
      bIsInitialized = False,
      SurfaceDeltas = Map.empty, FractureDeltas = Map.empty, TransformDeltas = Map.empty,
      SpawnDeltas = Map.empty, RemoveDeltas = Map.empty, AssemblyDeltas = Map.empty,
      DirtyCells = []\<rparr>"

text \<open>
  \<open>Initialize\<close>: the platform file system is consulted for the world directory;
  \<open>DirectoryExists\<close> and \<open>CreateDirectoryTree\<close> are its two answers.
\<close>

definition Initialize :: "bool \<Rightarrow> bool \<Rightarrow> FString \<Rightarrow> UFileDeltaStore \<Rightarrow> bool \<times> UFileDeltaStore" where
  "Initialize DirectoryExists CreateDirectoryTree WorldName s =
     (let s1 = s\<lparr>CurrentWorldName := WorldName\<rparr>
      in if \<not> DirectoryExists \<and> \<not> CreateDirectoryTree then (False, s1)
         else (True, s1\<lparr>bIsInitialized := True\<rparr>))"

definition AppendSurfaceDelta :: "FSurfaceTileDelta \<Rightarrow> UFileDeltaStore \<Rightarrow> UFileDeltaStore" where
  "AppendSurfaceDelta Delta s =
     s\<lparr>SurfaceDeltas := TMap_FindOrAdd_Add (SurfaceDeltas s) (FSurfaceTileDelta.CellKey Delta) Delta,
       DirtyCells := TSet_Add (DirtyCells s) (FSurfaceTileDelta.CellKey Delta)\<rparr>"

definition AppendFractureDelta :: "FFractureDelta \<Rightarrow> UFileDeltaStore \<Rightarrow> UFileDeltaStore" where
  "AppendFractureDelta Delta s =
     s\<lparr>FractureDeltas := TMap_FindOrAdd_Add (FractureDeltas s) (FFractureDelta.CellKey Delta) Delta,
       DirtyCells := TSet_Add (DirtyCells s) (FFractureDelta.CellKey Delta)\<rparr>"

definition AppendTransformDelta :: "FTransformDelta \<Rightarrow> UFileDeltaStore \<Rightarrow> UFileDeltaStore" where
  "AppendTransformDelta Delta s =
     s\<lparr>TransformDeltas := TMap_FindOrAdd_Add (TransformDeltas s) (FTransformDelta.CellKey Delta) Delta,
       DirtyCells := TSet_Add (DirtyCells s) (FTransformDelta.CellKey Delta)\<rparr>"

definition AppendSpawnDelta :: "FSpawnDelta \<Rightarrow> UFileDeltaStore \<Rightarrow> UFileDeltaStore" where
  "AppendSpawnDelta Delta s =
     s\<lparr>SpawnDeltas := TMap_FindOrAdd_Add (SpawnDeltas s) (FSpawnDelta.CellKey Delta) Delta,
       DirtyCells := TSet_Add (DirtyCells s) (FSpawnDelta.CellKey Delta)\<rparr>"

definition AppendRemoveDelta :: "FRemoveDelta \<Rightarrow> UFileDeltaStore \<Rightarrow> UFileDeltaStore" where
  "AppendRemoveDelta Delta s =
     s\<lparr>RemoveDeltas := TMap_FindOrAdd_Add (RemoveDeltas s) (FRemoveDelta.CellKey Delta) Delta,
       DirtyCells := TSet_Add (DirtyCells s) (FRemoveDelta.CellKey Delta)\<rparr>"

definition AppendAssemblyDelta :: "FAssemblyDelta \<Rightarrow> UFileDeltaStore \<Rightarrow> UFileDeltaStore" where
  "AppendAssemblyDelta Delta s =
     s\<lparr>AssemblyDeltas := TMap_FindOrAdd_Add (AssemblyDeltas s) (FAssemblyDelta.CellKey Delta) Delta,
       DirtyCells := TSet_Add (DirtyCells s) (FAssemblyDelta.CellKey Delta)\<rparr>"

definition GetSurfaceDeltas :: "UFileDeltaStore \<Rightarrow> FWorldCellKey \<Rightarrow> FSurfaceTileDelta list" where
  "GetSurfaceDeltas s k = (case SurfaceDeltas s k of Some Found \<Rightarrow> Found | None \<Rightarrow> [])"

definition GetFractureDeltas :: "UFileDeltaStore \<Rightarrow> FWorldCellKey \<Rightarrow> FFractureDelta list" where
  "GetFractureDeltas s k = (case FractureDeltas s k of Some Found \<Rightarrow> Found | None \<Rightarrow> [])"

definition GetTransformDeltas :: "UFileDeltaStore \<Rightarrow> FWorldCellKey \<Rightarrow> FTransformDelta list" where
  "GetTransformDeltas s k = (case TransformDeltas s k of Some Found \<Rightarrow> Found | None \<Rightarrow> [])"

definition GetSpawnDeltas :: "UFileDeltaStore \<Rightarrow> FWorldCellKey \<Rightarrow> FSpawnDelta list" where
  "GetSpawnDeltas s k = (case SpawnDeltas s k of Some Found \<Rightarrow> Found | None \<Rightarrow> [])"

definition GetRemoveDeltas :: "UFileDeltaStore \<Rightarrow> FWorldCellKey \<Rightarrow> FRemoveDelta list" where
  "GetRemoveDeltas s k = (case RemoveDeltas s k of Some Found \<Rightarrow> Found | None \<Rightarrow> [])"

definition GetAssemblyDeltas :: "UFileDeltaStore \<Rightarrow> FWorldCellKey \<Rightarrow> FAssemblyDelta list" where
  "GetAssemblyDeltas s k = (case AssemblyDeltas s k of Some Found \<Rightarrow> Found | None \<Rightarrow> [])"

definition ClearCellDeltas :: "FWorldCellKey \<Rightarrow> UFileDeltaStore \<Rightarrow> UFileDeltaStore" where
  "ClearCellDeltas k s =
     s\<lparr>SurfaceDeltas := (SurfaceDeltas s)(k := None),
       FractureDeltas := (FractureDeltas s)(k := None),
       TransformDeltas := (TransformDeltas s)(k := None),
       SpawnDeltas := (SpawnDeltas s)(k := None),
       RemoveDeltas := (RemoveDeltas s)(k := None),
       AssemblyDeltas := (AssemblyDeltas s)(k := None),
       DirtyCells := TSet_Remove (DirtyCells s) k\<rparr>"

text \<open>
  \<open>Flush\<close>. The function captures, for the dirty cells, a copy of each delta array that
  exists, empties the dirty set and launches a task with the captured data. The model
  returns the store after the call together with the captured data of the launched task
  (\<open>None\<close> when the function returns early without launching one). The body of the task
  writes files and touches no member of the store.
\<close>

record FlushTask =
  SaveDir :: FString
  CellsToFlush :: "FWorldCellKey list"
  SurfaceCopy :: "FWorldCellKey \<rightharpoonup> FSurfaceTileDelta list"
  FractureCopy :: "FWorldCellKey \<rightharpoonup> FFractureDelta list"
  TransformCopy :: "FWorldCellKey \<rightharpoonup> FTransformDelta list"
  SpawnCopy :: "FWorldCellKey \<rightharpoonup> FSpawnDelta list"
  RemoveCopy :: "FWorldCellKey \<rightharpoonup> FRemoveDelta list"
  AssemblyCopy :: "FWorldCellKey \<rightharpoonup> FAssemblyDelta list"

text \<open>One round of the capture loop for one of the six maps: \<open>if (Found) Copy.Add(CellKey, *Found)\<close>.\<close>

definition capture_cell :: "('k \<rightharpoonup> 'v) \<Rightarrow> 'k \<Rightarrow> ('k \<rightharpoonup> 'v) \<Rightarrow> ('k \<rightharpoonup> 'v)" where
  "capture_cell m k cp = (case m k of Some Found \<Rightarrow> cp(k \<mapsto> Found) | None \<Rightarrow> cp)"

fun capture_cells :: "UFileDeltaStore \<Rightarrow> FWorldCellKey list \<Rightarrow> FlushTask \<Rightarrow> FlushTask" where
  "capture_cells s [] t = t"
| "capture_cells s (k # ks) t =
     capture_cells s ks
       (t\<lparr>SurfaceCopy := capture_cell (SurfaceDeltas s) k (SurfaceCopy t),
          FractureCopy := capture_cell (FractureDeltas s) k (FractureCopy t),
          TransformCopy := capture_cell (TransformDeltas s) k (TransformCopy t),
          SpawnCopy := capture_cell (SpawnDeltas s) k (SpawnCopy t),
          RemoveCopy := capture_cell (RemoveDeltas s) k (RemoveCopy t),
          AssemblyCopy := capture_cell (AssemblyDeltas s) k (AssemblyCopy t)\<rparr>)"

definition Flush :: "UFileDeltaStore \<Rightarrow> UFileDeltaStore \<times> FlushTask option" where
  "Flush s =
     (if \<not> bIsInitialized s \<or> length (DirtyCells s) = 0 then (s, None)
      else
        let Cells = DirtyCells s;
            t0 = \<lparr>SaveDir = path_join (BaseSaveDirectory s) (CurrentWorldName s),
                  CellsToFlush = Cells,
                  SurfaceCopy = Map.empty, FractureCopy = Map.empty, TransformCopy = Map.empty,
                  SpawnCopy = Map.empty, RemoveCopy = Map.empty, AssemblyCopy = Map.empty\<rparr>;
            t = capture_cells s Cells t0
        in (s\<lparr>DirtyCells := []\<rparr>, Some t))"

text \<open>
  A sequence of calls on the store (the six appends, \<open>ClearCellDeltas\<close>, \<open>Initialize\<close>
  with the two answers of the file system, and \<open>Flush\<close>), and the deltas of each type
  that such a sequence appends for a cell, in call order.
\<close>

datatype DeltaCall =
  CallAppendSurface FSurfaceTileDelta
| CallAppendFracture FFractureDelta
| CallAppendTransform FTransformDelta
| CallAppendSpawn FSpawnDelta
| CallAppendRemove FRemoveDelta
| CallAppendAssembly FAssemblyDelta
| CallClearCell FWorldCellKey
| CallInitialize bool bool FString
| CallFlush

fun do_call :: "DeltaCall \<Rightarrow> UFileDeltaStore \<Rightarrow> UFileDeltaStore" where
  "do_call (CallAppendSurface d) s = AppendSurfaceDelta d s"
| "do_call (CallAppendFracture d) s = AppendFractureDelta d s"
| "do_call (CallAppendTransform d) s = AppendTransformDelta d s"
| "do_call (CallAppendSpawn d) s = AppendSpawnDelta d s"
| "do_call (CallAppendRemove d) s = AppendRemoveDelta d s"
| "do_call (CallAppendAssembly d) s = AppendAssemblyDelta d s"
| "do_call (CallClearCell k) s = ClearCellDeltas k s"
| "do_call (CallInitialize DirectoryExists CreateDirectoryTree WorldName) s =
     snd (Initialize DirectoryExists CreateDirectoryTree WorldName s)"
| "do_call CallFlush s = fst (Flush s)"

fun do_calls :: "DeltaCall list \<Rightarrow> UFileDeltaStore \<Rightarrow> UFileDeltaStore" where
  "do_calls [] s = s"
| "do_calls (c # cs) s = do_calls cs (do_call c s)"

fun surface_appended :: "FWorldCellKey \<Rightarrow> DeltaCall list \<Rightarrow> FSurfaceTileDelta list" where
  "surface_appended k [] = []"
| "surface_appended k (CallAppendSurface d # cs) =
     (if FSurfaceTileDelta.CellKey d = k then d # surface_appended k cs else surface_appended k cs)"
| "surface_appended k (_ # cs) = surface_appended k cs"

fun fracture_appended :: "FWorldCellKey \<Rightarrow> DeltaCall list \<Rightarrow> FFractureDelta list" where
  "fracture_appended k [] = []"
| "fracture_appended k (CallAppendFracture d # cs) =
     (if FFractureDelta.CellKey d = k then d # fracture_appended k cs else fracture_appended k cs)"
| "fracture_appended k (_ # cs) = fracture_appended k cs"

fun transform_appended :: "FWorldCellKey \<Rightarrow> DeltaCall list \<Rightarrow> FTransformDelta list" where
  "transform_appended k [] = []"
| "transform_appended k (CallAppendTransform d # cs) =
     (if FTransformDelta.CellKey d = k then d # transform_appended k cs else transform_appended k cs)"
| "transform_appended k (_ # cs) = transform_appended k cs"

fun spawn_appended :: "FWorldCellKey \<Rightarrow> DeltaCall list \<Rightarrow> FSpawnDelta list" where
  "spawn_appended k [] = []"
| "spawn_appended k (CallAppendSpawn d # cs) =
     (if FSpawnDelta.CellKey d = k then d # spawn_appended k cs else spawn_appended k cs)"
| "spawn_appended k (_ # cs) = spawn_appended k cs"

fun remove_appended :: "FWorldCellKey \<Rightarrow> DeltaCall list \<Rightarrow> FRemoveDelta list" where
  "remove_appended k [] = []"
| "remove_appended k (CallAppendRemove d # cs) =
     (if FRemoveDelta.CellKey d = k then d # remove_appended k cs else remove_appended k cs)"
| "remove_appended k (_ # cs) = remove_appended k cs"

fun assembly_appended :: "FWorldCellKey \<Rightarrow> DeltaCall list \<Rightarrow> FAssemblyDelta list" where
  "assembly_appended k [] = []"
| "assembly_appended k (CallAppendAssembly d # cs) =
     (if FAssemblyDelta.CellKey d = k then d # assembly_appended k cs else assembly_appended k cs)"
| "assembly_appended k (_ # cs) = assembly_appended k cs"

text \<open>
  The calls of a sequence that come after its last \<open>ClearCellDeltas\<close> of a given cell
  (the whole sequence when the cell is never cleared).
\<close>

fun is_clear_of :: "FWorldCellKey \<Rightarrow> DeltaCall \<Rightarrow> bool" where
  "is_clear_of c (CallClearCell k) = (k = c)"
| "is_clear_of c _ = False"

definition since_clear :: "FWorldCellKey \<Rightarrow> DeltaCall list \<Rightarrow> DeltaCall list" where
  "since_clear c xs = rev (takeWhile (\<lambda>x. \<not> is_clear_of c x) (rev xs))"

section \<open>SpecPackLoader: loading a SpecPack file\<close>

text \<open>
  The loader calls into the engine for the file system, the JSON reader, the clock and
  the hash. These services are a parameter of the model: \<open>'o\<close> is the engine's JSON
  object, \<open>'v\<close> its JSON value. Every \<open>TryGet...\<close> accessor returns the value it
  writes to its out-parameter, or \<open>None\<close> where it returns false and leaves the
  out-parameter alone. \<open>Deserialize\<close> returns its flag and the root object pointer
  (\<open>None\<close> for an invalid pointer).
\<close>

record ('o, 'v) Engine =
  LoadFileToString :: "FString \<Rightarrow> FString option"
  Deserialize :: "FString \<Rightarrow> bool \<times> 'o option"
  TryGetArrayField :: "'o \<Rightarrow> string \<Rightarrow> 'v list option"
  TryGetObject :: "'v \<Rightarrow> 'o option"
  TryGetString :: "'v \<Rightarrow> FString option"
  TryGetStringField :: "'o \<Rightarrow> string \<Rightarrow> FString option"
  TryGetNumberField :: "'o \<Rightarrow> string \<Rightarrow> real option"
  TryGetIntField :: "'o \<Rightarrow> string \<Rightarrow> 32 word option"
  TryGetBoolField :: "'o \<Rightarrow> string \<Rightarrow> bool option"
  UtcNow :: int
  HashToString :: "FString \<Rightarrow> FString"

record FSpecPackManifest =
  PackId :: FString
  Version :: "32 word"
  ContentHash :: FString
  EngineCompat :: FString
  Timestamp :: int
  ContainedSpecTypes :: "FString list"

definition FSpecPackManifest_default :: FSpecPackManifest where
  "FSpecPackManifest_default =
     \<lparr>PackId = [], FSpecPackManifest.Version = 1, ContentHash = [], EngineCompat = ''5.7'',
      FSpecPackManifest.Timestamp = 0, ContainedSpecTypes = []\<rparr>"

record FSpecPackLoadResult =
  bSuccess :: bool
  ErrorMessage :: FString
  Manifest :: FSpecPackManifest
  SurfaceSpecsLoaded :: int
  MediumSpecsLoaded :: int
  BiomeSpecsLoaded :: int

definition FSpecPackLoadResult_default :: FSpecPackLoadResult where
  "FSpecPackLoadResult_default =
     \<lparr>bSuccess = False, ErrorMessage = [], Manifest = FSpecPackManifest_default,
      SurfaceSpecsLoaded = 0, MediumSpecsLoaded = 0, BiomeSpecsLoaded = 0\<rparr>"

record USpecPackLoader =
  DefaultSpecPackPath :: FString
  CachedManifests :: "FString \<rightharpoonup> FSpecPackManifest"

definition USpecPackLoader_new :: "FString \<Rightarrow> USpecPackLoader" where
  "USpecPackLoader_new ProjectContentDir =
     \<lparr>DefaultSpecPackPath = path_join ProjectContentDir ''SpecPacks/Core.json'',
      CachedManifests = Map.empty\<rparr>"

text \<open>
  \<open>USpecPackLoader::RegisterSurfaceSpec\<close> and \<open>RegisterMediumSpec\<close> only write a log
  line: the loader is left as it is.
\<close>

definition Loader_RegisterSurfaceSpec ::
    "FSurfaceSpecId \<Rightarrow> FRuntimeSurfaceSpec \<Rightarrow> USpecPackLoader \<Rightarrow> USpecPackLoader" where
  "Loader_RegisterSurfaceSpec i Spec l = l"

definition Loader_RegisterMediumSpec ::
    "FMediumSpecId \<Rightarrow> FRuntimeMediumSpec \<Rightarrow> USpecPackLoader \<Rightarrow> USpecPackLoader" where
  "Loader_RegisterMediumSpec i Spec l = l"

text \<open>An accessor call whose result is ignored: the member changes only on success.\<close>

definition assign_if :: "'a option \<Rightarrow> ('a \<Rightarrow> 's \<Rightarrow> 's) \<Rightarrow> 's \<Rightarrow> 's" where
  "assign_if r upd s = (case r of Some x \<Rightarrow> upd x s | None \<Rightarrow> s)"

definition ParseSurfaceSpecFields :: "('o, 'v) Engine \<Rightarrow> 'o \<Rightarrow> FRuntimeSurfaceSpec" where
  "ParseSurfaceSpecFields env SpecObj =
     (assign_if (TryGetBoolField env SpecObj ''is_slippery'')
        (\<lambda>x s. s\<lparr>FRuntimeSurfaceSpec.bIsSlippery := x\<rparr>)
      (assign_if (TryGetBoolField env SpecObj ''is_deformable'')
        (\<lambda>x s. s\<lparr>FRuntimeSurfaceSpec.bIsDeformable := x\<rparr>)
      (assign_if (TryGetNumberField env SpecObj ''recovery_rate'')
        (\<lambda>x s. s\<lparr>FRuntimeSurfaceSpec.RecoveryRatePerS := x\<rparr>)
      (assign_if (TryGetNumberField env SpecObj ''max_deformation_depth'')
        (\<lambda>x s. s\<lparr>FRuntimeSurfaceSpec.MaxDeformationDepthCm := x\<rparr>)
      (assign_if (TryGetNumberField env SpecObj ''deformation_rate'')
        (\<lambda>x s. s\<lparr>FRuntimeSurfaceSpec.DeformationRatePerS := x\<rparr>)
      (assign_if (TryGetNumberField env SpecObj ''restitution'')
        (\<lambda>x s. s\<lparr>FRuntimeSurfaceSpec.Restitution := x\<rparr>)
      (assign_if (TryGetNumberField env SpecObj ''dynamic_friction'')
        (\<lambda>x s. s\<lparr>FRuntimeSurfaceSpec.DynamicFriction := x\<rparr>)
      (assign_if (TryGetNumberField env SpecObj ''static_friction'')
        (\<lambda>x s. s\<lparr>FRuntimeSurfaceSpec.StaticFriction := x\<rparr>)
      (assign_if (TryGetStringField env SpecObj ''display_name'')
        (\<lambda>x s. s\<lparr>FRuntimeSurfaceSpec.DisplayName := x\<rparr>)
       FRuntimeSurfaceSpec_default)))))))))"

definition ParseMediumSpecFields :: "('o, 'v) Engine \<Rightarrow> 'o \<Rightarrow> FRuntimeMediumSpec" where
  "ParseMediumSpecFields env SpecObj =
     (assign_if (TryGetNumberField env SpecObj ''absorption_coefficient'')
        (\<lambda>x s. s\<lparr>FRuntimeMediumSpec.AbsorptionCoefficient := x\<rparr>)
      (assign_if (TryGetNumberField env SpecObj ''speed_of_sound'')
        (\<lambda>x s. s\<lparr>FRuntimeMediumSpec.SpeedOfSound := x\<rparr>)
      (assign_if (TryGetNumberField env SpecObj ''viscosity'')
        (\<lambda>x s. s\<lparr>FRuntimeMediumSpec.Viscosity := x\<rparr>)
      (assign_if (TryGetNumberField env SpecObj ''drag_coefficient'')
        (\<lambda>x s. s\<lparr>FRuntimeMediumSpec.QuadraticDragCoeff := x\<rparr>)
      (assign_if (TryGetNumberField env SpecObj ''density'')
        (\<lambda>x s. s\<lparr>FRuntimeMediumSpec.Density := x\<rparr>)
      (assign_if (TryGetStringField env SpecObj ''display_name'')
        (\<lambda>x s. s\<lparr>FRuntimeMediumSpec.DisplayName := x\<rparr>)
       FRuntimeMediumSpec_default))))))"

text \<open>
  The loops of \<open>ParseSurfaceSpecs\<close> and \<open>ParseMediumSpecs\<close> over the spec array: an
  entry that is not an object, or has no string \<open>id\<close>, is skipped; every other entry is
  registered and counted. The state of the loop is the count and the loader. The count
  is an \<open>int32\<close> that is incremented once per array element at most; an engine array has
  fewer than \<open>2 ^ 31\<close> elements, so it never wraps and is an integer here.
\<close>

fun ParseSurfaceSpecs_loop ::
    "('o, 'v) Engine \<Rightarrow> 'v list \<Rightarrow> int \<times> USpecPackLoader \<Rightarrow> int \<times> USpecPackLoader" where
  "ParseSurfaceSpecs_loop env [] (Count, l) = (Count, l)"
| "ParseSurfaceSpecs_loop env (V # rest) (Count, l) =
     (case TryGetObject env V of
        None \<Rightarrow> ParseSurfaceSpecs_loop env rest (Count, l)
      | Some SpecObj \<Rightarrow>
          (case TryGetStringField env SpecObj ''id'' of
             None \<Rightarrow> ParseSurfaceSpecs_loop env rest (Count, l)
           | Some IdString \<Rightarrow>
               ParseSurfaceSpecs_loop env rest
                 (Count + 1,
                  Loader_RegisterSurfaceSpec \<lparr>FSurfaceSpecId.Id = IdString\<rparr>
                    (ParseSurfaceSpecFields env SpecObj) l)))"

definition ParseSurfaceSpecs :: "('o, 'v) Engine \<Rightarrow> 'o \<Rightarrow> USpecPackLoader \<Rightarrow> int \<times> USpecPackLoader" where
  "ParseSurfaceSpecs env RootObject l =
     (case TryGetArrayField env RootObject ''surface_specs'' of
        None \<Rightarrow> (0, l)
      | Some SpecArray \<Rightarrow> ParseSurfaceSpecs_loop env SpecArray (0, l))"

fun ParseMediumSpecs_loop ::
    "('o, 'v) Engine \<Rightarrow> 'v list \<Rightarrow> int \<times> USpecPackLoader \<Rightarrow> int \<times> USpecPackLoader" where
  "ParseMediumSpecs_loop env [] (Count, l) = (Count, l)"
| "ParseMediumSpecs_loop env (V # rest) (Count, l) =
     (case TryGetObject env V of
        None \<Rightarrow> ParseMediumSpecs_loop env rest (Count, l)
      | Some SpecObj \<Rightarrow>
          (case TryGetStringField env SpecObj ''id'' of
             None \<Rightarrow> ParseMediumSpecs_loop env rest (Count, l)
           | Some IdString \<Rightarrow>
               ParseMediumSpecs_loop env rest
                 (Count + 1,
                  Loader_RegisterMediumSpec \<lparr>FMediumSpecId.Id = IdString\<rparr>
                    (ParseMediumSpecFields env SpecObj) l)))"

definition ParseMediumSpecs :: "('o, 'v) Engine \<Rightarrow> 'o \<Rightarrow> USpecPackLoader \<Rightarrow> int \<times> USpecPackLoader" where
  "ParseMediumSpecs env RootObject l =
     (case TryGetArrayField env RootObject ''medium_specs'' of
        None \<Rightarrow> (0, l)
      | Some SpecArray \<Rightarrow> ParseMediumSpecs_loop env SpecArray (0, l))"

definition ParseBiomeSpecs :: "('o, 'v) Engine \<Rightarrow> 'o \<Rightarrow> USpecPackLoader \<Rightarrow> int \<times> USpecPackLoader" where
  "ParseBiomeSpecs env RootObject l = (0, l)"

fun ParseManifest_types :: "('o, 'v) Engine \<Rightarrow> 'v list \<Rightarrow> FString list \<Rightarrow> FString list" where
  "ParseManifest_types env [] acc = acc"
| "ParseManifest_types env (V # rest) acc =
     (case TryGetString env V of
        Some TypeName \<Rightarrow> ParseManifest_types env rest (acc @ [TypeName])
      | None \<Rightarrow> ParseManifest_types env rest acc)"

definition ParseManifest :: "('o, 'v) Engine \<Rightarrow> 'o \<Rightarrow> FSpecPackManifest \<Rightarrow> bool \<times> FSpecPackManifest" where
  "ParseManifest env RootObject OutManifest =
     (let m1 = assign_if (TryGetStringField env RootObject ''pack_id'') (\<lambda>x m. m\<lparr>PackId := x\<rparr>) OutManifest;
          m2 = assign_if (TryGetIntField env RootObject ''version'')
                 (\<lambda>x m. m\<lparr>FSpecPackManifest.Version := x\<rparr>) m1;
          m3 = assign_if (TryGetStringField env RootObject ''engine_compat'')
                 (\<lambda>x m. m\<lparr>EngineCompat := x\<rparr>) m2;
          m4 = (case TryGetArrayField env RootObject ''spec_types'' of
                  Some TypesArray \<Rightarrow>
                    m3\<lparr>ContainedSpecTypes := ParseManifest_types env TypesArray (ContainedSpecTypes m3)\<rparr>
                | None \<Rightarrow> m3)
      in (True, m4\<lparr>FSpecPackManifest.Timestamp := UtcNow env\<rparr>))"

definition GetSpecPackHash :: "('o, 'v) Engine \<Rightarrow> FString \<Rightarrow> FString" where
  "GetSpecPackHash env FilePath =
     (case LoadFileToString env FilePath of
        None \<Rightarrow> []
      | Some JsonString \<Rightarrow> HashToString env JsonString)"

text \<open>
  \<open>LoadSpecPack\<close>: the result struct and the loader after the call. The two early
  returns are the two failure branches.
\<close>

definition LoadSpecPack ::
    "('o, 'v) Engine \<Rightarrow> FString \<Rightarrow> USpecPackLoader \<Rightarrow> FSpecPackLoadResult \<times> USpecPackLoader" where
  "LoadSpecPack env FilePath l =
     (let Result = FSpecPackLoadResult_default in
      case LoadFileToString env FilePath of
        None \<Rightarrow> (Result\<lparr>ErrorMessage := ''Failed to read file: '' @ FilePath\<rparr>, l)
      | Some JsonString \<Rightarrow>
          (case Deserialize env JsonString of
             (ok, RootPtr) \<Rightarrow>
               (case (if ok then RootPtr else None) of
                  None \<Rightarrow> (Result\<lparr>ErrorMessage := ''Failed to parse JSON''\<rparr>, l)
                | Some RootObject \<Rightarrow>
                    let m = snd (ParseManifest env RootObject (Manifest Result));
                        m' = m\<lparr>ContentHash := GetSpecPackHash env FilePath\<rparr>;
                        (ns, l1) = ParseSurfaceSpecs env RootObject l;
                        (nm, l2) = ParseMediumSpecs env RootObject l1;
                        (nb, l3) = ParseBiomeSpecs env RootObject l2;
                        l4 = l3\<lparr>CachedManifests := (CachedManifests l3)(FilePath \<mapsto> m')\<rparr>
                    in (Result\<lparr>Manifest := m', SurfaceSpecsLoaded := ns, MediumSpecsLoaded := nm,
                               BiomeSpecsLoaded := nb, bSuccess := True\<rparr>, l4))))"

definition GetManifest :: "USpecPackLoader \<Rightarrow> FString \<Rightarrow> bool \<times> FSpecPackManifest option" where
  "GetManifest l FilePath =
     (case CachedManifests l FilePath of Some Found \<Rightarrow> (True, Some Found) | None \<Rightarrow> (False, None))"

text \<open>
  The failure condition in the specification's words: the file cannot be read, or its
  content cannot be parsed as JSON (the reader reports failure or yields no root object).
\<close>

definition cannot_load :: "('o, 'v) Engine \<Rightarrow> FString \<Rightarrow> bool" where
  "cannot_load env FilePath =
     (case LoadFileToString env FilePath of
        None \<Rightarrow> True
      | Some JsonString \<Rightarrow>
          (fst (Deserialize env JsonString) = False \<or> snd (Deserialize env JsonString) = None))"

text \<open>
  A small engine for concrete runs: a disk holding two files, a JSON reader that knows the
  parse of the first and rejects the second, and accessors without conversions between
  JSON kinds.
\<close>

datatype JV = JNull | JBool bool | JNumber real | JString string | JArray "JV list"
  | JObject "(string \<times> JV) list"

definition test_disk :: "FString \<Rightarrow> FString option" where
  "test_disk p =
     (if p = ''Core.json'' then Some ''pack Core: surface specs Ice, 7, x''
      else if p = ''Broken.json'' then Some ''pack Co''
      else None)"

definition test_reader :: "FString \<Rightarrow> bool \<times> (string \<times> JV) list option" where
  "test_reader js =
     (if js = ''pack Core: surface specs Ice, 7, x''
      then (True, Some [(''pack_id'', JString ''Core''),
                        (''surface_specs'',
                           JArray [JObject [(''id'', JString ''Ice'')], JNumber 7,
                                   JObject [(''x'', JNumber 1)]])])
      else (False, None))"

definition test_engine :: "((string \<times> JV) list, JV) Engine" where
  "test_engine =
     \<lparr>LoadFileToString = test_disk,
      Deserialize = test_reader,
      TryGetArrayField = (\<lambda>obj k. case map_of obj k of Some (JArray vs) \<Rightarrow> Some vs | _ \<Rightarrow> None),
      TryGetObject = (\<lambda>v. case v of JObject kvs \<Rightarrow> Some kvs | _ \<Rightarrow> None),
      TryGetString = (\<lambda>v. case v of JString x \<Rightarrow> Some x | _ \<Rightarrow> None),
      TryGetStringField = (\<lambda>obj k. case map_of obj k of Some (JString x) \<Rightarrow> Some x | _ \<Rightarrow> None),
      TryGetNumberField = (\<lambda>obj k. case map_of obj k of Some (JNumber x) \<Rightarrow> Some x | _ \<Rightarrow> None),
      TryGetIntField = (\<lambda>obj k. None),
      TryGetBoolField = (\<lambda>obj k. case map_of obj k of Some (JBool x) \<Rightarrow> Some x | _ \<Rightarrow> None),
      UtcNow = 638000000000000000,
      HashToString = (\<lambda>js. ''0000'')\<rparr>"

section \<open>GlobalAtmosphereField: the barometric pressure model\<close>

record UAtmosphereConfig =
  DisplayName :: FText
  SeaLevelAltitude :: real
  SeaLevelPressure :: real
  SeaLevelTemperature :: real
  SeaLevelDensity :: real
  TemperatureLapseRate :: real
  PressureScaleHeight :: real
  AtmosphereTopAltitude :: real
  VacuumDensityThreshold :: real
  SpecificGasConstant :: real
  HeatCapacityRatio :: real
  bIsBreathable :: bool
  BaseWindVelocity :: FVector
  WindAltitudeScale :: real
  WindGustStrength :: real

definition UAtmosphereConfig_new :: UAtmosphereConfig where
  "UAtmosphereConfig_new =
     \<lparr>UAtmosphereConfig.DisplayName = ''Earth Standard'',
      SeaLevelAltitude = 0,
      SeaLevelPressure = 101.325,
      SeaLevelTemperature = 288.15,
      SeaLevelDensity = 1.225,
      TemperatureLapseRate = 0.65,
      PressureScaleHeight = 8500,
      AtmosphereTopAltitude = 10000000,
      VacuumDensityThreshold = 0.00001,
      SpecificGasConstant = 287.05,
      HeatCapacityRatio = 1.4,
      UAtmosphereConfig.bIsBreathable = True,
      BaseWindVelocity = ZeroVector,
      WindAltitudeScale = 1,
      WindGustStrength = 0.1\<rparr>"

text \<open>
  The value ranges the class declares for its members (\<open>ClampMin\<close> and \<open>ClampMax\<close> in the
  \<open>UPROPERTY\<close> metadata).
\<close>

definition UAtmosphereConfig_in_range :: "UAtmosphereConfig \<Rightarrow> bool" where
  "UAtmosphereConfig_in_range c =
     (0 \<le> SeaLevelPressure c \<and> 0 \<le> SeaLevelTemperature c \<and> 0 \<le> SeaLevelDensity c
      \<and> 0 \<le> TemperatureLapseRate c \<and> 100 \<le> PressureScaleHeight c
      \<and> 0 \<le> VacuumDensityThreshold c \<and> 1 \<le> SpecificGasConstant c
      \<and> 1 \<le> HeatCapacityRatio c \<and> HeatCapacityRatio c \<le> 2
      \<and> 0 \<le> WindAltitudeScale c \<and> WindAltitudeScale c \<le> 5
      \<and> 0 \<le> WindGustStrength c \<and> WindGustStrength c \<le> 1)"

text \<open>
  \<open>GetPressureAtAltitude\<close>, with the component's \<open>AtmosphereConfig\<close> pointer as an
  option. The arithmetic is exact real arithmetic. With a scale height of zero the float
  quotient \<open>-AltitudeM / PressureScaleHeight\<close> is minus infinity and \<open>FMath::Exp\<close> of it
  is 0; real division by zero is not infinite, so the model writes that case out.
\<close>

definition GetPressureAtAltitude :: "UAtmosphereConfig option \<Rightarrow> real \<Rightarrow> real" where
  "GetPressureAtAltitude AtmosphereConfig AltitudeCm =
     (case AtmosphereConfig of
        None \<Rightarrow> 101.325
      | Some c \<Rightarrow>
          let AltitudeM = AltitudeCm / 100 in
          if AltitudeM \<le> 0 then SeaLevelPressure c
          else
            let ExpOfExponent =
                  (if PressureScaleHeight c = 0 then 0
                   else exp (- AltitudeM / PressureScaleHeight c));
                Pressure = SeaLevelPressure c * ExpOfExponent
            in max Pressure 0)"

section \<open>SolarSystemSubsystem: sidereal time and the lunar orbit\<close>

text \<open>
  The constants of namespace \<open>SolarMath\<close>. \<open>TwoPi\<close> is the literal of the source;
  \<open>DegToRad\<close> is \<open>PI / 180.0\<close> with the engine's single-precision \<open>PI\<close> macro.
\<close>

definition TwoPi :: real where
  "TwoPi = 6.283185307179586476925286766559"



text \<open>
  \<open>FMath::Fmod(X, Y)\<close>: zero for a divisor of magnitude at most \<open>1e-8\<close>, else the C
  library's \<open>fmod\<close>, the remainder \<open>X - n * Y\<close> with \<open>n\<close> the quotient \<open>X / Y\<close> rounded
  toward zero (so the result has the sign of \<open>X\<close>).
\<close>

definition trunc_toward_zero :: "real \<Rightarrow> int" where
  "trunc_toward_zero r = (if 0 \<le> r then \<lfloor>r\<rfloor> else \<lceil>r\<rceil>)"

definition FMath_Fmod :: "real \<Rightarrow> real \<Rightarrow> real" where
  "FMath_Fmod x y =
     (if \<bar>y\<bar> \<le> 0.00000001 then 0 else x - of_int (trunc_toward_zero (x / y)) * y)"

definition Wrap0ToTwoPi :: "real \<Rightarrow> real" where
  "Wrap0ToTwoPi Rad = (let x = FMath_Fmod Rad TwoPi in if x < 0 then x + TwoPi else x)"

definition UnixSecondsToJulianDate :: "real \<Rightarrow> real" where
  "UnixSecondsToJulianDate UnixSeconds = 2440587.5 + UnixSeconds / 86400"

definition ComputeGMSTAngleRad_FromJD :: "real \<Rightarrow> real" where
  "ComputeGMSTAngleRad_FromJD JD =
     (let D = JD - 2451545;
          GMST_Hours = 18.697374558 + 24.06570982441908 * D;
          GMST_Rad = TwoPi * FMath_Fmod (GMST_Hours / 24) 1
      in Wrap0ToTwoPi GMST_Rad)"







text \<open>
  The terms of the arctangent series, used to compare the literal \<open>TwoPi\<close> with \<open>2 * pi\<close>.
\<close>

definition arctan_term :: "real \<Rightarrow> nat \<Rightarrow> real" where
  "arctan_term x k = 1 / real (k * 2 + 1) * x ^ (k * 2 + 1)"

section \<open>Theorems\<close>

text \<open>
  Claim C2. Spec resolution never fails: for every subsystem state and every spec id,
  \<open>ResolveSurfaceSpec\<close> and \<open>ResolveMediumSpec\<close> yield an output spec; it is the
  registered runtime spec, with flag true, when the id is in the runtime registry, and
  otherwise the static fallback spec (display name "Default", respectively
  "Earth Atmosphere"), with flag false.
\<close>

theorem resolve_spec_never_fails:
  "ResolveSurfaceSpec s i =
     (case RuntimeSurfaceSpecs s (FSurfaceSpecId.Id i) of
        Some r \<Rightarrow> (True, r) | None \<Rightarrow> (False, FallbackSurfaceSpec))
   \<and> ResolveMediumSpec e j =
     (case RuntimeMediumSpecs e (FMediumSpecId.Id j) of
        Some r \<Rightarrow> (True, r) | None \<Rightarrow> (False, FallbackMediumSpec))
   \<and> (fst (ResolveSurfaceSpec s i) \<longleftrightarrow> FSurfaceSpecId.Id i \<in> dom (RuntimeSurfaceSpecs s))
   \<and> (fst (ResolveMediumSpec e j) \<longleftrightarrow> FMediumSpecId.Id j \<in> dom (RuntimeMediumSpecs e))
   \<and> ResolveSurfaceSpec (RegisterRuntimeSurfaceSpec i r s) i = (True, r)
   \<and> ResolveMediumSpec (RegisterRuntimeMediumSpec j q e) j = (True, q)
   \<and> ResolveSurfaceSpec USurfaceQuerySubsystem_new i = (False, FallbackSurfaceSpec)
   \<and> ResolveMediumSpec UEnvironmentSubsystem_new j = (False, FallbackMediumSpec)
   \<and> FRuntimeSurfaceSpec.DisplayName FallbackSurfaceSpec = ''Default''
   \<and> FRuntimeMediumSpec.DisplayName FallbackMediumSpec = ''Earth Atmosphere''"
  by (auto simp: ResolveSurfaceSpec_def ResolveMediumSpec_def RegisterRuntimeSurfaceSpec_def
      RegisterRuntimeMediumSpec_def USurfaceQuerySubsystem_new_def UEnvironmentSubsystem_new_def
      FallbackSurfaceSpec_def FallbackMediumSpec_def
      FRuntimeSurfaceSpec_default_def FRuntimeMediumSpec_default_def
      split: option.splits)

theorem resolve_spec_never_fails_witness:
  "ResolveSurfaceSpec
     (RegisterRuntimeSurfaceSpec \<lparr>FSurfaceSpecId.Id = ''Ice''\<rparr>
        (FRuntimeSurfaceSpec_default\<lparr>FRuntimeSurfaceSpec.StaticFriction := 0.1\<rparr>)
        USurfaceQuerySubsystem_new)
     \<lparr>FSurfaceSpecId.Id = ''Ice''\<rparr>
     = (True, FRuntimeSurfaceSpec_default\<lparr>FRuntimeSurfaceSpec.StaticFriction := 0.1\<rparr>)
   \<and> ResolveMediumSpec UEnvironmentSubsystem_new \<lparr>FMediumSpecId.Id = ''Mars''\<rparr>
     = (False, FallbackMediumSpec)"
  using resolve_spec_never_fails
    [of USurfaceQuerySubsystem_new "\<lparr>FSurfaceSpecId.Id = ''Ice''\<rparr>"
        UEnvironmentSubsystem_new "\<lparr>FMediumSpecId.Id = ''Mars''\<rparr>"
        "FRuntimeSurfaceSpec_default\<lparr>FRuntimeSurfaceSpec.StaticFriction := 0.1\<rparr>"]
  by blast

text \<open>
  Claim C7. Spec resolution is a three-tier lookup: runtime registry, then DataAsset
  registry, then the static fallback, returning the spec of the first tier that holds the
  id. Both header comments document this order and a true result for a spec found
  "runtime or asset". The two functions do not do it: a medium spec registered in the
  DataAsset registry only is not found by \<open>ResolveMediumSpec\<close>, which returns the
  fallback with flag false, where the three-tier lookup returns the converted asset with
  flag true; likewise a surface asset whose \<open>SpecId\<close> is the requested id is ignored by
  \<open>ResolveSurfaceSpec\<close>.
\<close>

theorem resolve_skips_data_asset_tier:
  "MediumSpecMap
     (RegisterMediumSpec \<lparr>FMediumSpecId.Id = ''Mars''\<rparr>
        (Some (UMediumSpec_new\<lparr>UMediumSpec.SpecId := \<lparr>FMediumSpecId.Id = ''Mars''\<rparr>,
                               UMediumSpec.DisplayName := ''Mars Atmosphere''\<rparr>))
        UEnvironmentSubsystem_new) ''Mars''
     = Some (UMediumSpec_new\<lparr>UMediumSpec.SpecId := \<lparr>FMediumSpecId.Id = ''Mars''\<rparr>,
                              UMediumSpec.DisplayName := ''Mars Atmosphere''\<rparr>)
   \<and> ResolveMediumSpec
     (RegisterMediumSpec \<lparr>FMediumSpecId.Id = ''Mars''\<rparr>
        (Some (UMediumSpec_new\<lparr>UMediumSpec.SpecId := \<lparr>FMediumSpecId.Id = ''Mars''\<rparr>,
                               UMediumSpec.DisplayName := ''Mars Atmosphere''\<rparr>))
        UEnvironmentSubsystem_new) \<lparr>FMediumSpecId.Id = ''Mars''\<rparr>
     = (False, FallbackMediumSpec)
   \<and> fst (ResolveMediumSpec_three_tier
     (RegisterMediumSpec \<lparr>FMediumSpecId.Id = ''Mars''\<rparr>
        (Some (UMediumSpec_new\<lparr>UMediumSpec.SpecId := \<lparr>FMediumSpecId.Id = ''Mars''\<rparr>,
                               UMediumSpec.DisplayName := ''Mars Atmosphere''\<rparr>))
        UEnvironmentSubsystem_new) \<lparr>FMediumSpecId.Id = ''Mars''\<rparr>) = True
   \<and> FRuntimeMediumSpec.DisplayName (snd (ResolveMediumSpec_three_tier
     (RegisterMediumSpec \<lparr>FMediumSpecId.Id = ''Mars''\<rparr>
        (Some (UMediumSpec_new\<lparr>UMediumSpec.SpecId := \<lparr>FMediumSpecId.Id = ''Mars''\<rparr>,
                               UMediumSpec.DisplayName := ''Mars Atmosphere''\<rparr>))
        UEnvironmentSubsystem_new) \<lparr>FMediumSpecId.Id = ''Mars''\<rparr>)) = ''Mars Atmosphere''
   \<and> FSurfaceSpecId.Id (USurfaceSpec.SpecId (the (SurfaceSpecMap
     (RegisterSurfaceSpec (Some 1)
        (Some (USurfaceSpec_new\<lparr>USurfaceSpec.SpecId := \<lparr>FSurfaceSpecId.Id = ''Ice''\<rparr>\<rparr>))
        USurfaceQuerySubsystem_new) 1))) = ''Ice''
   \<and> ResolveSurfaceSpec
     (RegisterSurfaceSpec (Some 1)
        (Some (USurfaceSpec_new\<lparr>USurfaceSpec.SpecId := \<lparr>FSurfaceSpecId.Id = ''Ice''\<rparr>\<rparr>))
        USurfaceQuerySubsystem_new) \<lparr>FSurfaceSpecId.Id = ''Ice''\<rparr>
     = (False, FallbackSurfaceSpec)"
  by (simp add: RegisterMediumSpec_def RegisterSurfaceSpec_def FMediumSpecId_IsValid_def NAME_None_def
      UEnvironmentSubsystem_new_def USurfaceQuerySubsystem_new_def
      ResolveMediumSpec_def ResolveSurfaceSpec_def ResolveMediumSpec_three_tier_def
      UMediumSpec_ToStruct_def FRuntimeMediumSpec_ValidateAndClamp_def Let_def)

text \<open>
  What the two functions compute as they are written: the runtime registry, then the
  static fallback. The DataAsset registry and the default asset are never consulted: the
  result is the same whatever they hold, it is the runtime spec whenever the runtime
  registry has the id, and it agrees with the three-tier lookup on every id that the
  runtime registry holds or the DataAsset registry lacks.
\<close>

lemma resolve_two_tier:
  "ResolveSurfaceSpec (s\<lparr>SurfaceSpecMap := m, DefaultSurfaceSpec := d\<rparr>) i = ResolveSurfaceSpec s i
   \<and> ResolveMediumSpec (e\<lparr>MediumSpecMap := m', DefaultMediumSpec := d'\<rparr>) j = ResolveMediumSpec e j
   \<and> (RuntimeSurfaceSpecs s (FSurfaceSpecId.Id i) = Some r \<longrightarrow> ResolveSurfaceSpec s i = (True, r))
   \<and> (RuntimeSurfaceSpecs s (FSurfaceSpecId.Id i) = None \<longrightarrow>
        ResolveSurfaceSpec s i = (False, FallbackSurfaceSpec))
   \<and> (RuntimeMediumSpecs e (FMediumSpecId.Id j) = Some q \<longrightarrow> ResolveMediumSpec e j = (True, q))
   \<and> (RuntimeMediumSpecs e (FMediumSpecId.Id j) = None \<longrightarrow>
        ResolveMediumSpec e j = (False, FallbackMediumSpec))
   \<and> (RuntimeMediumSpecs e (FMediumSpecId.Id j) \<noteq> None \<or> MediumSpecMap e (FMediumSpecId.Id j) = None \<longrightarrow>
        ResolveMediumSpec e j = ResolveMediumSpec_three_tier e j)"
  by (auto simp: ResolveSurfaceSpec_def ResolveMediumSpec_def ResolveMediumSpec_three_tier_def
      split: option.splits)

lemma resolve_two_tier_example:
  "ResolveMediumSpec
     (RegisterMediumSpec \<lparr>FMediumSpecId.Id = ''Mars''\<rparr> (Some UMediumSpec_new)
        (RegisterRuntimeMediumSpec \<lparr>FMediumSpecId.Id = ''Mars''\<rparr>
           (FRuntimeMediumSpec_default\<lparr>FRuntimeMediumSpec.Density := 0.02\<rparr>)
           UEnvironmentSubsystem_new))
     \<lparr>FMediumSpecId.Id = ''Mars''\<rparr>
     = (True, FRuntimeMediumSpec_default\<lparr>FRuntimeMediumSpec.Density := 0.02\<rparr>)
   \<and> ResolveMediumSpec UEnvironmentSubsystem_new \<lparr>FMediumSpecId.Id = ''Venus''\<rparr>
     = ResolveMediumSpec_three_tier UEnvironmentSubsystem_new \<lparr>FMediumSpecId.Id = ''Venus''\<rparr>
   \<and> ResolveSurfaceSpec USurfaceQuerySubsystem_new \<lparr>FSurfaceSpecId.Id = ''Ice''\<rparr>
     = (False, FallbackSurfaceSpec)"
proof -
  let ?e = "RegisterMediumSpec \<lparr>FMediumSpecId.Id = ''Mars''\<rparr> (Some UMediumSpec_new)
        (RegisterRuntimeMediumSpec \<lparr>FMediumSpecId.Id = ''Mars''\<rparr>
           (FRuntimeMediumSpec_default\<lparr>FRuntimeMediumSpec.Density := 0.02\<rparr>)
           UEnvironmentSubsystem_new)"
  have h1: "RuntimeMediumSpecs ?e ''Mars''
      = Some (FRuntimeMediumSpec_default\<lparr>FRuntimeMediumSpec.Density := 0.02\<rparr>)"
    by (simp add: RegisterMediumSpec_def RegisterRuntimeMediumSpec_def FMediumSpecId_IsValid_def
        NAME_None_def UEnvironmentSubsystem_new_def)
  have h2: "MediumSpecMap UEnvironmentSubsystem_new ''Venus'' = None"
    by (simp add: UEnvironmentSubsystem_new_def)
  have h3: "RuntimeSurfaceSpecs USurfaceQuerySubsystem_new ''Ice'' = None"
    by (simp add: USurfaceQuerySubsystem_new_def)
  from resolve_two_tier
    [where e = ?e and j = "\<lparr>FMediumSpecId.Id = ''Mars''\<rparr>"
        and q = "FRuntimeMediumSpec_default\<lparr>FRuntimeMediumSpec.Density := 0.02\<rparr>"]
    h1
  have a: "ResolveMediumSpec ?e \<lparr>FMediumSpecId.Id = ''Mars''\<rparr>
      = (True, FRuntimeMediumSpec_default\<lparr>FRuntimeMediumSpec.Density := 0.02\<rparr>)"
    by simp
  from resolve_two_tier
    [where e = UEnvironmentSubsystem_new and j = "\<lparr>FMediumSpecId.Id = ''Venus''\<rparr>"]
    h2
  have b: "ResolveMediumSpec UEnvironmentSubsystem_new \<lparr>FMediumSpecId.Id = ''Venus''\<rparr>
     = ResolveMediumSpec_three_tier UEnvironmentSubsystem_new \<lparr>FMediumSpecId.Id = ''Venus''\<rparr>"
    by simp
  from resolve_two_tier
    [where s = USurfaceQuerySubsystem_new and i = "\<lparr>FSurfaceSpecId.Id = ''Ice''\<rparr>"]
    h3
  have c: "ResolveSurfaceSpec USurfaceQuerySubsystem_new \<lparr>FSurfaceSpecId.Id = ''Ice''\<rparr>
     = (False, FallbackSurfaceSpec)"
    by simp
  from a b c show ?thesis by simp
qed

subsection \<open>FileDeltaStore: appending and reading\<close>

lemma FWorldCellKey_eq_iff: "FWorldCellKey_eq a b \<longleftrightarrow> a = b"
  by (cases a, cases b) (simp add: FWorldCellKey_eq_def)

lemma FindOrAdd_Add_lookup:
  "(case TMap_FindOrAdd_Add m k v c of Some Found \<Rightarrow> Found | None \<Rightarrow> []) =
     (if c = k then (case m k of Some Found \<Rightarrow> Found | None \<Rightarrow> []) @ [v]
      else (case m c of Some Found \<Rightarrow> Found | None \<Rightarrow> []))"
  by (simp add: TMap_FindOrAdd_Add_def split: option.splits)

lemma TSet_Add_member: "k \<in> set (TSet_Add ks k)"
  by (simp add: TSet_Add_def)

lemma TSet_Add_distinct: "distinct ks \<Longrightarrow> distinct (TSet_Add ks k)"
  by (simp add: TSet_Add_def)

lemmas Append_defs =
  AppendSurfaceDelta_def AppendFractureDelta_def AppendTransformDelta_def
  AppendSpawnDelta_def AppendRemoveDelta_def AppendAssemblyDelta_def

lemmas Get_defs =
  GetSurfaceDeltas_def GetFractureDeltas_def GetTransformDeltas_def
  GetSpawnDeltas_def GetRemoveDeltas_def GetAssemblyDeltas_def

lemma GetSurface_AppendSurface:
  "GetSurfaceDeltas (AppendSurfaceDelta d s) c =
     (if c = FSurfaceTileDelta.CellKey d then GetSurfaceDeltas s c @ [d] else GetSurfaceDeltas s c)"
  by (simp add: GetSurfaceDeltas_def AppendSurfaceDelta_def FindOrAdd_Add_lookup)

lemma AppendSurface_dirty:
  "FSurfaceTileDelta.CellKey d \<in> set (DirtyCells (AppendSurfaceDelta d s))"
  by (simp add: AppendSurfaceDelta_def TSet_Add_member)

lemma AppendSurface_frame:
  "GetFractureDeltas (AppendSurfaceDelta d s) c = GetFractureDeltas s c
   \<and> GetTransformDeltas (AppendSurfaceDelta d s) c = GetTransformDeltas s c
   \<and> GetSpawnDeltas (AppendSurfaceDelta d s) c = GetSpawnDeltas s c
   \<and> GetRemoveDeltas (AppendSurfaceDelta d s) c = GetRemoveDeltas s c
   \<and> GetAssemblyDeltas (AppendSurfaceDelta d s) c = GetAssemblyDeltas s c"
  by (simp add: AppendSurfaceDelta_def Get_defs)

lemma GetFracture_AppendFracture:
  "GetFractureDeltas (AppendFractureDelta d s) c =
     (if c = FFractureDelta.CellKey d then GetFractureDeltas s c @ [d] else GetFractureDeltas s c)"
  by (simp add: GetFractureDeltas_def AppendFractureDelta_def FindOrAdd_Add_lookup)

lemma AppendFracture_dirty:
  "FFractureDelta.CellKey d \<in> set (DirtyCells (AppendFractureDelta d s))"
  by (simp add: AppendFractureDelta_def TSet_Add_member)

lemma AppendFracture_frame:
  "GetSurfaceDeltas (AppendFractureDelta d s) c = GetSurfaceDeltas s c
   \<and> GetTransformDeltas (AppendFractureDelta d s) c = GetTransformDeltas s c
   \<and> GetSpawnDeltas (AppendFractureDelta d s) c = GetSpawnDeltas s c
   \<and> GetRemoveDeltas (AppendFractureDelta d s) c = GetRemoveDeltas s c
   \<and> GetAssemblyDeltas (AppendFractureDelta d s) c = GetAssemblyDeltas s c"
  by (simp add: AppendFractureDelta_def Get_defs)

lemma GetTransform_AppendTransform:
  "GetTransformDeltas (AppendTransformDelta d s) c =
     (if c = FTransformDelta.CellKey d then GetTransformDeltas s c @ [d] else GetTransformDeltas s c)"
  by (simp add: GetTransformDeltas_def AppendTransformDelta_def FindOrAdd_Add_lookup)

lemma AppendTransform_dirty:
  "FTransformDelta.CellKey d \<in> set (DirtyCells (AppendTransformDelta d s))"
  by (simp add: AppendTransformDelta_def TSet_Add_member)

lemma AppendTransform_frame:
  "GetSurfaceDeltas (AppendTransformDelta d s) c = GetSurfaceDeltas s c
   \<and> GetFractureDeltas (AppendTransformDelta d s) c = GetFractureDeltas s c
   \<and> GetSpawnDeltas (AppendTransformDelta d s) c = GetSpawnDeltas s c
   \<and> GetRemoveDeltas (AppendTransformDelta d s) c = GetRemoveDeltas s c
   \<and> GetAssemblyDeltas (AppendTransformDelta d s) c = GetAssemblyDeltas s c"
  by (simp add: AppendTransformDelta_def Get_defs)

lemma GetSpawn_AppendSpawn:
  "GetSpawnDeltas (AppendSpawnDelta d s) c =
     (if c = FSpawnDelta.CellKey d then GetSpawnDeltas s c @ [d] else GetSpawnDeltas s c)"
  by (simp add: GetSpawnDeltas_def AppendSpawnDelta_def FindOrAdd_Add_lookup)

lemma AppendSpawn_dirty:
  "FSpawnDelta.CellKey d \<in> set (DirtyCells (AppendSpawnDelta d s))"
  by (simp add: AppendSpawnDelta_def TSet_Add_member)

lemma AppendSpawn_frame:
  "GetSurfaceDeltas (AppendSpawnDelta d s) c = GetSurfaceDeltas s c
   \<and> GetFractureDeltas (AppendSpawnDelta d s) c = GetFractureDeltas s c
   \<and> GetTransformDeltas (AppendSpawnDelta d s) c = GetTransformDeltas s c
   \<and> GetRemoveDeltas (AppendSpawnDelta d s) c = GetRemoveDeltas s c
   \<and> GetAssemblyDeltas (AppendSpawnDelta d s) c = GetAssemblyDeltas s c"
  by (simp add: AppendSpawnDelta_def Get_defs)

lemma GetRemove_AppendRemove:
  "GetRemoveDeltas (AppendRemoveDelta d s) c =
     (if c = FRemoveDelta.CellKey d then GetRemoveDeltas s c @ [d] else GetRemoveDeltas s c)"
  by (simp add: GetRemoveDeltas_def AppendRemoveDelta_def FindOrAdd_Add_lookup)

lemma AppendRemove_dirty:
  "FRemoveDelta.CellKey d \<in> set (DirtyCells (AppendRemoveDelta d s))"
  by (simp add: AppendRemoveDelta_def TSet_Add_member)

lemma AppendRemove_frame:
  "GetSurfaceDeltas (AppendRemoveDelta d s) c = GetSurfaceDeltas s c
   \<and> GetFractureDeltas (AppendRemoveDelta d s) c = GetFractureDeltas s c
   \<and> GetTransformDeltas (AppendRemoveDelta d s) c = GetTransformDeltas s c
   \<and> GetSpawnDeltas (AppendRemoveDelta d s) c = GetSpawnDeltas s c
   \<and> GetAssemblyDeltas (AppendRemoveDelta d s) c = GetAssemblyDeltas s c"
  by (simp add: AppendRemoveDelta_def Get_defs)

lemma GetAssembly_AppendAssembly:
  "GetAssemblyDeltas (AppendAssemblyDelta d s) c =
     (if c = FAssemblyDelta.CellKey d then GetAssemblyDeltas s c @ [d] else GetAssemblyDeltas s c)"
  by (simp add: GetAssemblyDeltas_def AppendAssemblyDelta_def FindOrAdd_Add_lookup)

lemma AppendAssembly_dirty:
  "FAssemblyDelta.CellKey d \<in> set (DirtyCells (AppendAssemblyDelta d s))"
  by (simp add: AppendAssemblyDelta_def TSet_Add_member)

lemma AppendAssembly_frame:
  "GetSurfaceDeltas (AppendAssemblyDelta d s) c = GetSurfaceDeltas s c
   \<and> GetFractureDeltas (AppendAssemblyDelta d s) c = GetFractureDeltas s c
   \<and> GetTransformDeltas (AppendAssemblyDelta d s) c = GetTransformDeltas s c
   \<and> GetSpawnDeltas (AppendAssemblyDelta d s) c = GetSpawnDeltas s c
   \<and> GetRemoveDeltas (AppendAssemblyDelta d s) c = GetRemoveDeltas s c"
  by (simp add: AppendAssemblyDelta_def Get_defs)

lemma Initialize_frame:
  "GetSurfaceDeltas (snd (Initialize e k n s)) c = GetSurfaceDeltas s c
   \<and> GetFractureDeltas (snd (Initialize e k n s)) c = GetFractureDeltas s c
   \<and> GetTransformDeltas (snd (Initialize e k n s)) c = GetTransformDeltas s c
   \<and> GetSpawnDeltas (snd (Initialize e k n s)) c = GetSpawnDeltas s c
   \<and> GetRemoveDeltas (snd (Initialize e k n s)) c = GetRemoveDeltas s c
   \<and> GetAssemblyDeltas (snd (Initialize e k n s)) c = GetAssemblyDeltas s c"
  by (simp add: Initialize_def Let_def Get_defs)

lemma Flush_frame:
  "GetSurfaceDeltas (fst (Flush s)) c = GetSurfaceDeltas s c
   \<and> GetFractureDeltas (fst (Flush s)) c = GetFractureDeltas s c
   \<and> GetTransformDeltas (fst (Flush s)) c = GetTransformDeltas s c
   \<and> GetSpawnDeltas (fst (Flush s)) c = GetSpawnDeltas s c
   \<and> GetRemoveDeltas (fst (Flush s)) c = GetRemoveDeltas s c
   \<and> GetAssemblyDeltas (fst (Flush s)) c = GetAssemblyDeltas s c"
  by (simp add: Flush_def Let_def Get_defs)

lemma ClearCellDeltas_get:
  "GetSurfaceDeltas (ClearCellDeltas k s) c = (if c = k then [] else GetSurfaceDeltas s c)
   \<and> GetFractureDeltas (ClearCellDeltas k s) c = (if c = k then [] else GetFractureDeltas s c)
   \<and> GetTransformDeltas (ClearCellDeltas k s) c = (if c = k then [] else GetTransformDeltas s c)
   \<and> GetSpawnDeltas (ClearCellDeltas k s) c = (if c = k then [] else GetSpawnDeltas s c)
   \<and> GetRemoveDeltas (ClearCellDeltas k s) c = (if c = k then [] else GetRemoveDeltas s c)
   \<and> GetAssemblyDeltas (ClearCellDeltas k s) c = (if c = k then [] else GetAssemblyDeltas s c)"
  by (simp add: ClearCellDeltas_def Get_defs)

lemma ClearCellDeltas_clean: "k \<notin> set (DirtyCells (ClearCellDeltas k s))"
  by (simp add: ClearCellDeltas_def TSet_Remove_def)

lemma do_calls_append: "do_calls (xs @ ys) s = do_calls ys (do_calls xs s)"
  by (induction xs arbitrary: s) simp_all

lemma since_clear_Nil: "since_clear c [] = []"
  by (simp add: since_clear_def)

lemma since_clear_snoc:
  "since_clear c (xs @ [x]) = (if is_clear_of c x then [] else since_clear c xs @ [x])"
  by (simp add: since_clear_def)

lemma GetSurface_do_call:
  "GetSurfaceDeltas (do_call x s) c =
     (if is_clear_of c x then [] else GetSurfaceDeltas s c @ surface_appended c [x])"
  by (cases x) (simp_all add: GetSurface_AppendSurface AppendFracture_frame AppendTransform_frame AppendSpawn_frame AppendRemove_frame AppendAssembly_frame
      Initialize_frame Flush_frame ClearCellDeltas_get)

lemma surface_appended_Cons:
  "surface_appended c (x # xs) = surface_appended c [x] @ surface_appended c xs"
  by (cases x) simp_all

lemma surface_appended_append:
  "surface_appended c (xs @ ys) = surface_appended c xs @ surface_appended c ys"
proof (induction xs)
  case Nil
  show ?case by simp
next
  case (Cons x xs)
  have "surface_appended c ((x # xs) @ ys) = surface_appended c [x] @ surface_appended c (xs @ ys)"
    by (simp only: append_Cons surface_appended_Cons [of c x "xs @ ys"])
  also have "\<dots> = surface_appended c [x] @ surface_appended c xs @ surface_appended c ys"
    by (simp only: Cons.IH)
  also have "\<dots> = surface_appended c (x # xs) @ surface_appended c ys"
    by (simp only: surface_appended_Cons [of c x xs] append_assoc)
  finally show ?case .
qed

lemma GetSurface_new: "GetSurfaceDeltas (UFileDeltaStore_new dir) c = []"
  by (simp add: GetSurfaceDeltas_def UFileDeltaStore_new_def)

lemma GetSurface_do_calls:
  "GetSurfaceDeltas (do_calls xs (UFileDeltaStore_new dir)) c = surface_appended c (since_clear c xs)"
proof (induction xs rule: rev_induct)
  case Nil
  show ?case by (simp add: GetSurface_new since_clear_Nil)
next
  case (snoc x xs)
  show ?case
    by (simp add: do_calls_append GetSurface_do_call snoc.IH since_clear_snoc surface_appended_append)
qed

lemma GetFracture_do_call:
  "GetFractureDeltas (do_call x s) c =
     (if is_clear_of c x then [] else GetFractureDeltas s c @ fracture_appended c [x])"
  by (cases x) (simp_all add: GetFracture_AppendFracture AppendSurface_frame AppendTransform_frame AppendSpawn_frame AppendRemove_frame AppendAssembly_frame
      Initialize_frame Flush_frame ClearCellDeltas_get)

lemma fracture_appended_Cons:
  "fracture_appended c (x # xs) = fracture_appended c [x] @ fracture_appended c xs"
  by (cases x) simp_all

lemma fracture_appended_append:
  "fracture_appended c (xs @ ys) = fracture_appended c xs @ fracture_appended c ys"
proof (induction xs)
  case Nil
  show ?case by simp
next
  case (Cons x xs)
  have "fracture_appended c ((x # xs) @ ys) = fracture_appended c [x] @ fracture_appended c (xs @ ys)"
    by (simp only: append_Cons fracture_appended_Cons [of c x "xs @ ys"])
  also have "\<dots> = fracture_appended c [x] @ fracture_appended c xs @ fracture_appended c ys"
    by (simp only: Cons.IH)
  also have "\<dots> = fracture_appended c (x # xs) @ fracture_appended c ys"
    by (simp only: fracture_appended_Cons [of c x xs] append_assoc)
  finally show ?case .
qed

lemma GetFracture_new: "GetFractureDeltas (UFileDeltaStore_new dir) c = []"
  by (simp add: GetFractureDeltas_def UFileDeltaStore_new_def)

lemma GetFracture_do_calls:
  "GetFractureDeltas (do_calls xs (UFileDeltaStore_new dir)) c = fracture_appended c (since_clear c xs)"
proof (induction xs rule: rev_induct)
  case Nil
  show ?case by (simp add: GetFracture_new since_clear_Nil)
next
  case (snoc x xs)
  show ?case
    by (simp add: do_calls_append GetFracture_do_call snoc.IH since_clear_snoc fracture_appended_append)
qed

lemma GetTransform_do_call:
  "GetTransformDeltas (do_call x s) c =
     (if is_clear_of c x then [] else GetTransformDeltas s c @ transform_appended c [x])"
  by (cases x) (simp_all add: GetTransform_AppendTransform AppendSurface_frame AppendFracture_frame AppendSpawn_frame AppendRemove_frame AppendAssembly_frame
      Initialize_frame Flush_frame ClearCellDeltas_get)

lemma transform_appended_Cons:
  "transform_appended c (x # xs) = transform_appended c [x] @ transform_appended c xs"
  by (cases x) simp_all

lemma transform_appended_append:
  "transform_appended c (xs @ ys) = transform_appended c xs @ transform_appended c ys"
proof (induction xs)
  case Nil
  show ?case by simp
next
  case (Cons x xs)
  have "transform_appended c ((x # xs) @ ys) = transform_appended c [x] @ transform_appended c (xs @ ys)"
    by (simp only: append_Cons transform_appended_Cons [of c x "xs @ ys"])
  also have "\<dots> = transform_appended c [x] @ transform_appended c xs @ transform_appended c ys"
    by (simp only: Cons.IH)
  also have "\<dots> = transform_appended c (x # xs) @ transform_appended c ys"
    by (simp only: transform_appended_Cons [of c x xs] append_assoc)
  finally show ?case .
qed

lemma GetTransform_new: "GetTransformDeltas (UFileDeltaStore_new dir) c = []"
  by (simp add: GetTransformDeltas_def UFileDeltaStore_new_def)

lemma GetTransform_do_calls:
  "GetTransformDeltas (do_calls xs (UFileDeltaStore_new dir)) c = transform_appended c (since_clear c xs)"
proof (induction xs rule: rev_induct)
  case Nil
  show ?case by (simp add: GetTransform_new since_clear_Nil)
next
  case (snoc x xs)
  show ?case
    by (simp add: do_calls_append GetTransform_do_call snoc.IH since_clear_snoc transform_appended_append)
qed

lemma GetSpawn_do_call:
  "GetSpawnDeltas (do_call x s) c =
     (if is_clear_of c x then [] else GetSpawnDeltas s c @ spawn_appended c [x])"
  by (cases x) (simp_all add: GetSpawn_AppendSpawn AppendSurface_frame AppendFracture_frame AppendTransform_frame AppendRemove_frame AppendAssembly_frame
      Initialize_frame Flush_frame ClearCellDeltas_get)

lemma spawn_appended_Cons:
  "spawn_appended c (x # xs) = spawn_appended c [x] @ spawn_appended c xs"
  by (cases x) simp_all

lemma spawn_appended_append:
  "spawn_appended c (xs @ ys) = spawn_appended c xs @ spawn_appended c ys"
proof (induction xs)
  case Nil
  show ?case by simp
next
  case (Cons x xs)
  have "spawn_appended c ((x # xs) @ ys) = spawn_appended c [x] @ spawn_appended c (xs @ ys)"
    by (simp only: append_Cons spawn_appended_Cons [of c x "xs @ ys"])
  also have "\<dots> = spawn_appended c [x] @ spawn_appended c xs @ spawn_appended c ys"
    by (simp only: Cons.IH)
  also have "\<dots> = spawn_appended c (x # xs) @ spawn_appended c ys"
    by (simp only: spawn_appended_Cons [of c x xs] append_assoc)
  finally show ?case .
qed

lemma GetSpawn_new: "GetSpawnDeltas (UFileDeltaStore_new dir) c = []"
  by (simp add: GetSpawnDeltas_def UFileDeltaStore_new_def)

lemma GetSpawn_do_calls:
  "GetSpawnDeltas (do_calls xs (UFileDeltaStore_new dir)) c = spawn_appended c (since_clear c xs)"
proof (induction xs rule: rev_induct)
  case Nil
  show ?case by (simp add: GetSpawn_new since_clear_Nil)
next
  case (snoc x xs)
  show ?case
    by (simp add: do_calls_append GetSpawn_do_call snoc.IH since_clear_snoc spawn_appended_append)
qed

lemma GetRemove_do_call:
  "GetRemoveDeltas (do_call x s) c =
     (if is_clear_of c x then [] else GetRemoveDeltas s c @ remove_appended c [x])"
  by (cases x) (simp_all add: GetRemove_AppendRemove AppendSurface_frame AppendFracture_frame AppendTransform_frame AppendSpawn_frame AppendAssembly_frame
      Initialize_frame Flush_frame ClearCellDeltas_get)

lemma remove_appended_Cons:
  "remove_appended c (x # xs) = remove_appended c [x] @ remove_appended c xs"
  by (cases x) simp_all

lemma remove_appended_append:
  "remove_appended c (xs @ ys) = remove_appended c xs @ remove_appended c ys"
proof (induction xs)
  case Nil
  show ?case by simp
next
  case (Cons x xs)
  have "remove_appended c ((x # xs) @ ys) = remove_appended c [x] @ remove_appended c (xs @ ys)"
    by (simp only: append_Cons remove_appended_Cons [of c x "xs @ ys"])
  also have "\<dots> = remove_appended c [x] @ remove_appended c xs @ remove_appended c ys"
    by (simp only: Cons.IH)
  also have "\<dots> = remove_appended c (x # xs) @ remove_appended c ys"
    by (simp only: remove_appended_Cons [of c x xs] append_assoc)
  finally show ?case .
qed

lemma GetRemove_new: "GetRemoveDeltas (UFileDeltaStore_new dir) c = []"
  by (simp add: GetRemoveDeltas_def UFileDeltaStore_new_def)

lemma GetRemove_do_calls:
  "GetRemoveDeltas (do_calls xs (UFileDeltaStore_new dir)) c = remove_appended c (since_clear c xs)"
proof (induction xs rule: rev_induct)
  case Nil
  show ?case by (simp add: GetRemove_new since_clear_Nil)
next
  case (snoc x xs)
  show ?case
    by (simp add: do_calls_append GetRemove_do_call snoc.IH since_clear_snoc remove_appended_append)
qed

lemma GetAssembly_do_call:
  "GetAssemblyDeltas (do_call x s) c =
     (if is_clear_of c x then [] else GetAssemblyDeltas s c @ assembly_appended c [x])"
  by (cases x) (simp_all add: GetAssembly_AppendAssembly AppendSurface_frame AppendFracture_frame AppendTransform_frame AppendSpawn_frame AppendRemove_frame
      Initialize_frame Flush_frame ClearCellDeltas_get)

lemma assembly_appended_Cons:
  "assembly_appended c (x # xs) = assembly_appended c [x] @ assembly_appended c xs"
  by (cases x) simp_all

lemma assembly_appended_append:
  "assembly_appended c (xs @ ys) = assembly_appended c xs @ assembly_appended c ys"
proof (induction xs)
  case Nil
  show ?case by simp
next
  case (Cons x xs)
  have "assembly_appended c ((x # xs) @ ys) = assembly_appended c [x] @ assembly_appended c (xs @ ys)"
    by (simp only: append_Cons assembly_appended_Cons [of c x "xs @ ys"])
  also have "\<dots> = assembly_appended c [x] @ assembly_appended c xs @ assembly_appended c ys"
    by (simp only: Cons.IH)
  also have "\<dots> = assembly_appended c (x # xs) @ assembly_appended c ys"
    by (simp only: assembly_appended_Cons [of c x xs] append_assoc)
  finally show ?case .
qed

lemma GetAssembly_new: "GetAssemblyDeltas (UFileDeltaStore_new dir) c = []"
  by (simp add: GetAssemblyDeltas_def UFileDeltaStore_new_def)

lemma GetAssembly_do_calls:
  "GetAssemblyDeltas (do_calls xs (UFileDeltaStore_new dir)) c = assembly_appended c (since_clear c xs)"
proof (induction xs rule: rev_induct)
  case Nil
  show ?case by (simp add: GetAssembly_new since_clear_Nil)
next
  case (snoc x xs)
  show ?case
    by (simp add: do_calls_append GetAssembly_do_call snoc.IH since_clear_snoc assembly_appended_append)
qed

text \<open>
  Claim C1 as stated fails on the store: \<open>ClearCellDeltas\<close>, an operation of the same
  \<open>IDeltaStore\<close> interface, removes the lists of a cell, so after an append followed by
  a clear of the same cell the getter returns the empty array although a delta has been
  appended for that cell.
\<close>

theorem delta_store_clear_counterexample:
  "surface_appended (FWorldCellKey_make 0 0 0)
     [CallAppendSurface FSurfaceTileDelta_default, CallClearCell (FWorldCellKey_make 0 0 0)]
     = [FSurfaceTileDelta_default]
   \<and> GetSurfaceDeltas
     (ClearCellDeltas (FWorldCellKey_make 0 0 0)
        (AppendSurfaceDelta FSurfaceTileDelta_default (UFileDeltaStore_new ''Saved'')))
     (FWorldCellKey_make 0 0 0)
     = []
   \<and> GetSurfaceDeltas
     (do_calls [CallAppendSurface FSurfaceTileDelta_default, CallClearCell (FWorldCellKey_make 0 0 0)]
        (UFileDeltaStore_new ''Saved''))
     (FWorldCellKey_make 0 0 0)
     \<noteq> surface_appended (FWorldCellKey_make 0 0 0)
         [CallAppendSurface FSurfaceTileDelta_default, CallClearCell (FWorldCellKey_make 0 0 0)]"
  by (simp add: FSurfaceTileDelta_default_def FWorldCellKey_make_def ClearCellDeltas_def
      AppendSurfaceDelta_def GetSurfaceDeltas_def)

text \<open>
  Claim C1, amended. Delta accumulation is cell-keyed and append-only between clears.
  For each of the six delta types, appending a delta \<open>d\<close> puts \<open>d\<close> at the end of the
  list read back for \<open>d.CellKey\<close>, leaves the list of every other cell as it was, marks
  \<open>d.CellKey\<close> dirty, and leaves the lists of the other five types untouched for every
  cell. \<open>ClearCellDeltas(k)\<close> empties the six lists of cell \<open>k\<close> and no other. After any
  sequence of append, \<open>ClearCellDeltas\<close>, \<open>Initialize\<close> and \<open>Flush\<close> calls on a freshly
  constructed store, each getter returns, for every cell, exactly the deltas of its type
  appended for that cell since the cell was last cleared, in call order (the empty list
  when there are none).
\<close>

theorem delta_store_append_only:
  "GetSurfaceDeltas (AppendSurfaceDelta dsu s) c =
      (if c = FSurfaceTileDelta.CellKey dsu then GetSurfaceDeltas s c @ [dsu] else GetSurfaceDeltas s c)
   \<and> FSurfaceTileDelta.CellKey dsu \<in> set (DirtyCells (AppendSurfaceDelta dsu s))
   \<and> GetFractureDeltas (AppendSurfaceDelta dsu s) c = GetFractureDeltas s c
   \<and> GetTransformDeltas (AppendSurfaceDelta dsu s) c = GetTransformDeltas s c
   \<and> GetSpawnDeltas (AppendSurfaceDelta dsu s) c = GetSpawnDeltas s c
   \<and> GetRemoveDeltas (AppendSurfaceDelta dsu s) c = GetRemoveDeltas s c
   \<and> GetAssemblyDeltas (AppendSurfaceDelta dsu s) c = GetAssemblyDeltas s c
   \<and> GetFractureDeltas (AppendFractureDelta dfr s) c =
      (if c = FFractureDelta.CellKey dfr then GetFractureDeltas s c @ [dfr] else GetFractureDeltas s c)
   \<and> FFractureDelta.CellKey dfr \<in> set (DirtyCells (AppendFractureDelta dfr s))
   \<and> GetSurfaceDeltas (AppendFractureDelta dfr s) c = GetSurfaceDeltas s c
   \<and> GetTransformDeltas (AppendFractureDelta dfr s) c = GetTransformDeltas s c
   \<and> GetSpawnDeltas (AppendFractureDelta dfr s) c = GetSpawnDeltas s c
   \<and> GetRemoveDeltas (AppendFractureDelta dfr s) c = GetRemoveDeltas s c
   \<and> GetAssemblyDeltas (AppendFractureDelta dfr s) c = GetAssemblyDeltas s c
   \<and> GetTransformDeltas (AppendTransformDelta dtr s) c =
      (if c = FTransformDelta.CellKey dtr then GetTransformDeltas s c @ [dtr] else GetTransformDeltas s c)
   \<and> FTransformDelta.CellKey dtr \<in> set (DirtyCells (AppendTransformDelta dtr s))
   \<and> GetSurfaceDeltas (AppendTransformDelta dtr s) c = GetSurfaceDeltas s c
   \<and> GetFractureDeltas (AppendTransformDelta dtr s) c = GetFractureDeltas s c
   \<and> GetSpawnDeltas (AppendTransformDelta dtr s) c = GetSpawnDeltas s c
   \<and> GetRemoveDeltas (AppendTransformDelta dtr s) c = GetRemoveDeltas s c
   \<and> GetAssemblyDeltas (AppendTransformDelta dtr s) c = GetAssemblyDeltas s c
   \<and> GetSpawnDeltas (AppendSpawnDelta dsp s) c =
      (if c = FSpawnDelta.CellKey dsp then GetSpawnDeltas s c @ [dsp] else GetSpawnDeltas s c)
   \<and> FSpawnDelta.CellKey dsp \<in> set (DirtyCells (AppendSpawnDelta dsp s))
   \<and> GetSurfaceDeltas (AppendSpawnDelta dsp s) c = GetSurfaceDeltas s c
   \<and> GetFractureDeltas (AppendSpawnDelta dsp s) c = GetFractureDeltas s c
   \<and> GetTransformDeltas (AppendSpawnDelta dsp s) c = GetTransformDeltas s c
   \<and> GetRemoveDeltas (AppendSpawnDelta dsp s) c = GetRemoveDeltas s c
   \<and> GetAssemblyDeltas (AppendSpawnDelta dsp s) c = GetAssemblyDeltas s c
   \<and> GetRemoveDeltas (AppendRemoveDelta dre s) c =
      (if c = FRemoveDelta.CellKey dre then GetRemoveDeltas s c @ [dre] else GetRemoveDeltas s c)
   \<and> FRemoveDelta.CellKey dre \<in> set (DirtyCells (AppendRemoveDelta dre s))
   \<and> GetSurfaceDeltas (AppendRemoveDelta dre s) c = GetSurfaceDeltas s c
   \<and> GetFractureDeltas (AppendRemoveDelta dre s) c = GetFractureDeltas s c
   \<and> GetTransformDeltas (AppendRemoveDelta dre s) c = GetTransformDeltas s c
   \<and> GetSpawnDeltas (AppendRemoveDelta dre s) c = GetSpawnDeltas s c
   \<and> GetAssemblyDeltas (AppendRemoveDelta dre s) c = GetAssemblyDeltas s c
   \<and> GetAssemblyDeltas (AppendAssemblyDelta das s) c =
      (if c = FAssemblyDelta.CellKey das then GetAssemblyDeltas s c @ [das] else GetAssemblyDeltas s c)
   \<and> FAssemblyDelta.CellKey das \<in> set (DirtyCells (AppendAssemblyDelta das s))
   \<and> GetSurfaceDeltas (AppendAssemblyDelta das s) c = GetSurfaceDeltas s c
   \<and> GetFractureDeltas (AppendAssemblyDelta das s) c = GetFractureDeltas s c
   \<and> GetTransformDeltas (AppendAssemblyDelta das s) c = GetTransformDeltas s c
   \<and> GetSpawnDeltas (AppendAssemblyDelta das s) c = GetSpawnDeltas s c
   \<and> GetRemoveDeltas (AppendAssemblyDelta das s) c = GetRemoveDeltas s c
   \<and> GetSurfaceDeltas (ClearCellDeltas k s) c = (if c = k then [] else GetSurfaceDeltas s c)
   \<and> GetFractureDeltas (ClearCellDeltas k s) c = (if c = k then [] else GetFractureDeltas s c)
   \<and> GetTransformDeltas (ClearCellDeltas k s) c = (if c = k then [] else GetTransformDeltas s c)
   \<and> GetSpawnDeltas (ClearCellDeltas k s) c = (if c = k then [] else GetSpawnDeltas s c)
   \<and> GetRemoveDeltas (ClearCellDeltas k s) c = (if c = k then [] else GetRemoveDeltas s c)
   \<and> GetAssemblyDeltas (ClearCellDeltas k s) c = (if c = k then [] else GetAssemblyDeltas s c)
   \<and> GetSurfaceDeltas (do_calls xs (UFileDeltaStore_new dir)) c = surface_appended c (since_clear c xs)
   \<and> GetFractureDeltas (do_calls xs (UFileDeltaStore_new dir)) c = fracture_appended c (since_clear c xs)
   \<and> GetTransformDeltas (do_calls xs (UFileDeltaStore_new dir)) c = transform_appended c (since_clear c xs)
   \<and> GetSpawnDeltas (do_calls xs (UFileDeltaStore_new dir)) c = spawn_appended c (since_clear c xs)
   \<and> GetRemoveDeltas (do_calls xs (UFileDeltaStore_new dir)) c = remove_appended c (since_clear c xs)
   \<and> GetAssemblyDeltas (do_calls xs (UFileDeltaStore_new dir)) c = assembly_appended c (since_clear c xs)"
proof -
  note step = GetSurface_AppendSurface GetFracture_AppendFracture GetTransform_AppendTransform
    GetSpawn_AppendSpawn GetRemove_AppendRemove GetAssembly_AppendAssembly
  note dirty = AppendSurface_dirty AppendFracture_dirty AppendTransform_dirty
    AppendSpawn_dirty AppendRemove_dirty AppendAssembly_dirty
  note frame = AppendSurface_frame AppendFracture_frame AppendTransform_frame
    AppendSpawn_frame AppendRemove_frame AppendAssembly_frame
  note trace = GetSurface_do_calls GetFracture_do_calls GetTransform_do_calls
    GetSpawn_do_calls GetRemove_do_calls GetAssembly_do_calls
  show ?thesis
    by (intro conjI) (simp_all only: step dirty frame trace ClearCellDeltas_get)
qed

theorem delta_store_append_only_witness:
  "GetSurfaceDeltas
     (do_calls
        [CallInitialize False True ''World'',
         CallAppendSurface (FSurfaceTileDelta_default\<lparr>Value := 5\<rparr>),
         CallClearCell (FWorldCellKey_make 0 0 0),
         CallAppendSurface (FSurfaceTileDelta_default\<lparr>Value := 10\<rparr>),
         CallFlush,
         CallAppendFracture FFractureDelta_default,
         CallClearCell (FWorldCellKey_make 1 0 0),
         CallAppendSurface
           (FSurfaceTileDelta_default\<lparr>FSurfaceTileDelta.CellKey := FWorldCellKey_make 1 0 0\<rparr>),
         CallAppendSurface (FSurfaceTileDelta_default\<lparr>Value := 20\<rparr>)]
        (UFileDeltaStore_new ''Saved''))
     (FWorldCellKey_make 0 0 0)
   = [FSurfaceTileDelta_default\<lparr>Value := 10\<rparr>, FSurfaceTileDelta_default\<lparr>Value := 20\<rparr>]
   \<and> GetRemoveDeltas
     (do_calls
        [CallInitialize False True ''World'',
         CallAppendSurface (FSurfaceTileDelta_default\<lparr>Value := 5\<rparr>),
         CallClearCell (FWorldCellKey_make 0 0 0),
         CallAppendSurface (FSurfaceTileDelta_default\<lparr>Value := 10\<rparr>),
         CallFlush,
         CallAppendFracture FFractureDelta_default,
         CallClearCell (FWorldCellKey_make 1 0 0),
         CallAppendSurface
           (FSurfaceTileDelta_default\<lparr>FSurfaceTileDelta.CellKey := FWorldCellKey_make 1 0 0\<rparr>),
         CallAppendSurface (FSurfaceTileDelta_default\<lparr>Value := 20\<rparr>)]
        (UFileDeltaStore_new ''Saved''))
     (FWorldCellKey_make 0 0 0)
   = []"
proof -
  let ?xs = "[CallInitialize False True ''World'',
         CallAppendSurface (FSurfaceTileDelta_default\<lparr>Value := 5\<rparr>),
         CallClearCell (FWorldCellKey_make 0 0 0),
         CallAppendSurface (FSurfaceTileDelta_default\<lparr>Value := 10\<rparr>),
         CallFlush,
         CallAppendFracture FFractureDelta_default,
         CallClearCell (FWorldCellKey_make 1 0 0),
         CallAppendSurface
           (FSurfaceTileDelta_default\<lparr>FSurfaceTileDelta.CellKey := FWorldCellKey_make 1 0 0\<rparr>),
         CallAppendSurface (FSurfaceTileDelta_default\<lparr>Value := 20\<rparr>)]"
  let ?k = "FWorldCellKey_make 0 0 0"
  note t = delta_store_append_only [where c = ?k and dir = "''Saved''" and xs = ?xs]
  have a: "GetSurfaceDeltas (do_calls ?xs (UFileDeltaStore_new ''Saved'')) ?k
      = surface_appended ?k (since_clear ?k ?xs)"
    using t by blast
  have b: "GetRemoveDeltas (do_calls ?xs (UFileDeltaStore_new ''Saved'')) ?k
      = remove_appended ?k (since_clear ?k ?xs)"
    using t by blast
  show ?thesis
    unfolding a b
    by (simp add: since_clear_def FSurfaceTileDelta_default_def FWorldCellKey_make_def)
qed

subsection \<open>FileDeltaStore: flushing\<close>

lemma Flush_state:
  "fst (Flush s) =
     (if \<not> bIsInitialized s \<or> DirtyCells s = [] then s else s\<lparr>DirtyCells := []\<rparr>)"
  by (simp add: Flush_def Let_def)

lemma Flush_task_None:
  "snd (Flush s) = None \<longleftrightarrow> \<not> bIsInitialized s \<or> DirtyCells s = []"
  by (simp add: Flush_def Let_def)

lemma capture_cell_restrict:
  "capture_cell m k cp = cp ++ (m |` {k})"
  by (auto simp: capture_cell_def map_add_def restrict_map_def fun_eq_iff split: option.splits)

lemma map_add_restrict_insert:
  "(cp ++ (m |` {k})) ++ (m |` A) = cp ++ (m |` insert k A)"
  by (auto simp: map_add_def restrict_map_def fun_eq_iff split: option.splits)

lemma capture_cells_maps:
  "SurfaceCopy (capture_cells s ks t) = SurfaceCopy t ++ (SurfaceDeltas s |` set ks)
   \<and> FractureCopy (capture_cells s ks t) = FractureCopy t ++ (FractureDeltas s |` set ks)
   \<and> TransformCopy (capture_cells s ks t) = TransformCopy t ++ (TransformDeltas s |` set ks)
   \<and> SpawnCopy (capture_cells s ks t) = SpawnCopy t ++ (SpawnDeltas s |` set ks)
   \<and> RemoveCopy (capture_cells s ks t) = RemoveCopy t ++ (RemoveDeltas s |` set ks)
   \<and> AssemblyCopy (capture_cells s ks t) = AssemblyCopy t ++ (AssemblyDeltas s |` set ks)
   \<and> CellsToFlush (capture_cells s ks t) = CellsToFlush t
   \<and> SaveDir (capture_cells s ks t) = SaveDir t"
proof (induction ks arbitrary: t)
  case Nil
  show ?case by simp
next
  case (Cons k ks)
  show ?case
    by (simp add: Cons.IH capture_cell_restrict map_add_restrict_insert)
qed

text \<open>
  What the launched task holds: for each delta type, the arrays of exactly the dirty
  cells as they were at the call.
\<close>

lemma Flush_captures_dirty_cells:
  assumes "Flush s = (s', Some t)"
  shows "CellsToFlush t = DirtyCells s
    \<and> SurfaceCopy t = SurfaceDeltas s |` set (DirtyCells s)
    \<and> FractureCopy t = FractureDeltas s |` set (DirtyCells s)
    \<and> TransformCopy t = TransformDeltas s |` set (DirtyCells s)
    \<and> SpawnCopy t = SpawnDeltas s |` set (DirtyCells s)
    \<and> RemoveCopy t = RemoveDeltas s |` set (DirtyCells s)
    \<and> AssemblyCopy t = AssemblyDeltas s |` set (DirtyCells s)"
  using assms
  by (auto simp: Flush_def Let_def capture_cells_maps split: if_splits)

text \<open>
  Claim C10. \<open>Flush\<close> never changes the stored deltas: every getter returns, for every
  cell, the same array after the call as before. The call only empties the dirty-cell
  set; when the store is uninitialised or no cell is dirty the whole in-memory state,
  dirty set included, is unchanged (and no task is launched).
\<close>

theorem flush_keeps_deltas:
  "GetSurfaceDeltas (fst (Flush s)) c = GetSurfaceDeltas s c
   \<and> GetFractureDeltas (fst (Flush s)) c = GetFractureDeltas s c
   \<and> GetTransformDeltas (fst (Flush s)) c = GetTransformDeltas s c
   \<and> GetSpawnDeltas (fst (Flush s)) c = GetSpawnDeltas s c
   \<and> GetRemoveDeltas (fst (Flush s)) c = GetRemoveDeltas s c
   \<and> GetAssemblyDeltas (fst (Flush s)) c = GetAssemblyDeltas s c
   \<and> fst (Flush s) =
       (if \<not> bIsInitialized s \<or> DirtyCells s = [] then s else s\<lparr>DirtyCells := []\<rparr>)
   \<and> (bIsInitialized s \<longrightarrow> DirtyCells (fst (Flush s)) = [])
   \<and> (\<not> bIsInitialized s \<or> DirtyCells s = [] \<longrightarrow> Flush s = (s, None))"
  by (simp add: Flush_def Let_def Get_defs)

theorem flush_keeps_deltas_witness:
  "GetSurfaceDeltas
     (fst (Flush (AppendSurfaceDelta FSurfaceTileDelta_default
        (snd (Initialize True False ''World'' (UFileDeltaStore_new ''Saved''))))))
     (FWorldCellKey_make 0 0 0)
   = [FSurfaceTileDelta_default]
   \<and> DirtyCells
     (fst (Flush (AppendSurfaceDelta FSurfaceTileDelta_default
        (snd (Initialize True False ''World'' (UFileDeltaStore_new ''Saved''))))))
   = []
   \<and> Flush (AppendSurfaceDelta FSurfaceTileDelta_default (UFileDeltaStore_new ''Saved''))
   = (AppendSurfaceDelta FSurfaceTileDelta_default (UFileDeltaStore_new ''Saved''), None)"
proof -
  let ?s = "AppendSurfaceDelta FSurfaceTileDelta_default
        (snd (Initialize True False ''World'' (UFileDeltaStore_new ''Saved'')))"
  let ?u = "AppendSurfaceDelta FSurfaceTileDelta_default (UFileDeltaStore_new ''Saved'')"
  have i: "bIsInitialized ?s"
    by (simp add: AppendSurfaceDelta_def Initialize_def Let_def)
  have u: "\<not> bIsInitialized ?u"
    by (simp add: AppendSurfaceDelta_def UFileDeltaStore_new_def)
  have g: "GetSurfaceDeltas ?s (FWorldCellKey_make 0 0 0) = [FSurfaceTileDelta_default]"
    by (simp add: GetSurfaceDeltas_def AppendSurfaceDelta_def Initialize_def Let_def
        UFileDeltaStore_new_def TMap_FindOrAdd_Add_def FSurfaceTileDelta_default_def)
  note t = flush_keeps_deltas [of ?s "FWorldCellKey_make 0 0 0"]
  have a1: "GetSurfaceDeltas (fst (Flush ?s)) (FWorldCellKey_make 0 0 0)
      = GetSurfaceDeltas ?s (FWorldCellKey_make 0 0 0)"
    using t by blast
  have a2: "DirtyCells (fst (Flush ?s)) = []"
    using t i by blast
  have a: "GetSurfaceDeltas (fst (Flush ?s)) (FWorldCellKey_make 0 0 0) = [FSurfaceTileDelta_default]
      \<and> DirtyCells (fst (Flush ?s)) = []"
    using a1 a2 g by simp
  from flush_keeps_deltas [of ?u "FWorldCellKey_make 0 0 0"] u
  have b: "Flush ?u = (?u, None)"
    by blast
  from a b show ?thesis by simp
qed

subsection \<open>Delta records\<close>

lemmas decl_defs =
  FSurfaceTileDelta_decl_def FFractureDelta_decl_def FTransformDelta_decl_def
  FSpawnDelta_decl_def FRemoveDelta_decl_def FAssemblyDelta_decl_def

lemmas carries_defs =
  carries_CellKey_def carries_Guid_def carries_Timestamp_def
  carries_channel_operation_value_def carries_transform_def carries_damaged_parts_def
  carries_broken_chunks_def carries_removal_reason_def carries_listed_payload_def
  carries_all_four_def

text \<open>
  Claim C8 as stated fails on two of the six records: \<open>FSurfaceTileDelta\<close> has no GUID
  member (it is located by tile index and world location, and names an author player),
  and the payload of \<open>FRemoveDelta\<close> is a removal reason, none of the three listed kinds.
\<close>

theorem delta_records_counterexample:
  "\<not> carries_Guid FSurfaceTileDelta_decl
   \<and> \<not> carries_all_four FSurfaceTileDelta_decl
   \<and> \<not> carries_listed_payload FRemoveDelta_decl
   \<and> \<not> carries_all_four FRemoveDelta_decl"
  by (simp add: decl_defs carries_defs)

text \<open>
  Claim C8, amended. Every one of the six delta records carries a \<open>CellKey\<close> and a
  \<open>Timestamp\<close>. The five records other than \<open>FSurfaceTileDelta\<close> carry a GUID. The
  payload is channel + operation + value for the surface tile delta, the broken-chunk
  list for the fracture delta, a transform for the transform, spawn and assembly deltas,
  the damaged-part list for the assembly delta as well, and the removal reason for the
  remove delta. So the fracture, transform, spawn and assembly deltas carry all four
  items of the original sentence.
\<close>

theorem delta_records_carry:
  "carries_CellKey FSurfaceTileDelta_decl \<and> carries_Timestamp FSurfaceTileDelta_decl
   \<and> carries_CellKey FFractureDelta_decl \<and> carries_Timestamp FFractureDelta_decl
   \<and> carries_CellKey FTransformDelta_decl \<and> carries_Timestamp FTransformDelta_decl
   \<and> carries_CellKey FSpawnDelta_decl \<and> carries_Timestamp FSpawnDelta_decl
   \<and> carries_CellKey FRemoveDelta_decl \<and> carries_Timestamp FRemoveDelta_decl
   \<and> carries_CellKey FAssemblyDelta_decl \<and> carries_Timestamp FAssemblyDelta_decl
   \<and> carries_Guid FFractureDelta_decl \<and> carries_Guid FTransformDelta_decl
   \<and> carries_Guid FSpawnDelta_decl \<and> carries_Guid FRemoveDelta_decl
   \<and> carries_Guid FAssemblyDelta_decl
   \<and> carries_channel_operation_value FSurfaceTileDelta_decl
   \<and> carries_broken_chunks FFractureDelta_decl
   \<and> carries_transform FTransformDelta_decl
   \<and> carries_transform FSpawnDelta_decl
   \<and> carries_transform FAssemblyDelta_decl
   \<and> carries_damaged_parts FAssemblyDelta_decl
   \<and> carries_removal_reason FRemoveDelta_decl
   \<and> carries_all_four FFractureDelta_decl
   \<and> carries_all_four FTransformDelta_decl
   \<and> carries_all_four FSpawnDelta_decl
   \<and> carries_all_four FAssemblyDelta_decl"
  by (simp add: decl_defs carries_defs)

subsection \<open>SpecPackLoader\<close>

lemma LoadSpecPack_failure:
  assumes "cannot_load env p"
  shows "fst (LoadSpecPack env p l) =
           FSpecPackLoadResult_default
             \<lparr>ErrorMessage := (case LoadFileToString env p of
                                None \<Rightarrow> ''Failed to read file: '' @ p
                              | Some js \<Rightarrow> ''Failed to parse JSON'')\<rparr>"
    and "snd (LoadSpecPack env p l) = l"
  using assms
  by (auto simp: cannot_load_def LoadSpecPack_def Let_def split: option.splits prod.splits if_splits)

lemma LoadSpecPack_success:
  assumes "\<not> cannot_load env p"
  shows "bSuccess (fst (LoadSpecPack env p l))"
    and "ErrorMessage (fst (LoadSpecPack env p l)) = []"
    and "CachedManifests (snd (LoadSpecPack env p l)) p = Some (Manifest (fst (LoadSpecPack env p l)))"
  using assms
  by (auto simp: cannot_load_def LoadSpecPack_def Let_def FSpecPackLoadResult_default_def
      split: option.splits prod.splits if_splits)

lemma LoadSpecPack_Core_counts:
  "SurfaceSpecsLoaded (fst (LoadSpecPack test_engine ''Core.json'' (USpecPackLoader_new ''Content''))) = 1
   \<and> MediumSpecsLoaded (fst (LoadSpecPack test_engine ''Core.json'' (USpecPackLoader_new ''Content''))) = 0
   \<and> PackId (Manifest (fst (LoadSpecPack test_engine ''Core.json'' (USpecPackLoader_new ''Content''))))
       = ''Core''"
  by (simp add: LoadSpecPack_def test_engine_def test_disk_def test_reader_def Let_def
      ParseSurfaceSpecs_def ParseMediumSpecs_def ParseBiomeSpecs_def ParseManifest_def
      GetSpecPackHash_def assign_if_def Loader_RegisterSurfaceSpec_def
      FSpecPackLoadResult_default_def FSpecPackManifest_default_def)

text \<open>
  Claim C3. For every file path, the result of \<open>LoadSpecPack\<close> has \<open>bSuccess\<close> false and
  a non-empty \<open>ErrorMessage\<close> exactly when the file cannot be read or its content cannot
  be parsed as JSON; in every other case \<open>bSuccess\<close> is true. On such a failure the three
  spec counts stay at zero, the manifest of the result stays the default one, and the
  loader (so its manifest cache) is unchanged; on success the manifest of the result is
  the one cached for the path.
\<close>

theorem load_spec_pack_result:
  "((bSuccess (fst (LoadSpecPack env p l)) = False \<and> ErrorMessage (fst (LoadSpecPack env p l)) \<noteq> [])
      = cannot_load env p)
   \<and> (bSuccess (fst (LoadSpecPack env p l)) = (\<not> cannot_load env p))
   \<and> (cannot_load env p \<longrightarrow>
        SurfaceSpecsLoaded (fst (LoadSpecPack env p l)) = 0
        \<and> MediumSpecsLoaded (fst (LoadSpecPack env p l)) = 0
        \<and> BiomeSpecsLoaded (fst (LoadSpecPack env p l)) = 0
        \<and> Manifest (fst (LoadSpecPack env p l)) = FSpecPackManifest_default
        \<and> snd (LoadSpecPack env p l) = l)
   \<and> (\<not> cannot_load env p \<longrightarrow>
        ErrorMessage (fst (LoadSpecPack env p l)) = []
        \<and> CachedManifests (snd (LoadSpecPack env p l)) p
            = Some (Manifest (fst (LoadSpecPack env p l))))"
proof (cases "cannot_load env p")
  case True
  note f = LoadSpecPack_failure [OF True, of l]
  have e: "ErrorMessage (fst (LoadSpecPack env p l)) \<noteq> []"
    by (simp add: f(1) split: option.splits)
  have r: "bSuccess (fst (LoadSpecPack env p l)) = False"
      "SurfaceSpecsLoaded (fst (LoadSpecPack env p l)) = 0"
      "MediumSpecsLoaded (fst (LoadSpecPack env p l)) = 0"
      "BiomeSpecsLoaded (fst (LoadSpecPack env p l)) = 0"
      "Manifest (fst (LoadSpecPack env p l)) = FSpecPackManifest_default"
    by (simp_all add: f(1) FSpecPackLoadResult_default_def)
  from True e r f(2) show ?thesis by simp
next
  case False
  from False LoadSpecPack_success [OF False, of l] show ?thesis by simp
qed

theorem load_spec_pack_result_witness:
  "bSuccess (fst (LoadSpecPack test_engine ''Core.json'' (USpecPackLoader_new ''Content'')))
   \<and> CachedManifests (snd (LoadSpecPack test_engine ''Core.json'' (USpecPackLoader_new ''Content'')))
        ''Core.json''
      = Some (Manifest (fst (LoadSpecPack test_engine ''Core.json'' (USpecPackLoader_new ''Content''))))
   \<and> bSuccess (fst (LoadSpecPack test_engine ''Broken.json'' (USpecPackLoader_new ''Content''))) = False
   \<and> snd (LoadSpecPack test_engine ''Broken.json'' (USpecPackLoader_new ''Content''))
      = USpecPackLoader_new ''Content''
   \<and> bSuccess (fst (LoadSpecPack test_engine ''Missing.json'' (USpecPackLoader_new ''Content''))) = False
   \<and> SurfaceSpecsLoaded (fst (LoadSpecPack test_engine ''Missing.json'' (USpecPackLoader_new ''Content'')))
      = 0"
proof -
  have c: "\<not> cannot_load test_engine ''Core.json''"
    by (simp add: cannot_load_def test_engine_def test_disk_def test_reader_def)
  have b: "cannot_load test_engine ''Broken.json''"
    by (simp add: cannot_load_def test_engine_def test_disk_def test_reader_def)
  have m: "cannot_load test_engine ''Missing.json''"
    by (simp add: cannot_load_def test_engine_def test_disk_def)
  note tc = load_spec_pack_result [of test_engine "''Core.json''" "USpecPackLoader_new ''Content''"]
  note tb = load_spec_pack_result [of test_engine "''Broken.json''" "USpecPackLoader_new ''Content''"]
  note tm = load_spec_pack_result [of test_engine "''Missing.json''" "USpecPackLoader_new ''Content''"]
  from tc c have 1: "bSuccess (fst (LoadSpecPack test_engine ''Core.json'' (USpecPackLoader_new ''Content'')))"
    and 2: "CachedManifests (snd (LoadSpecPack test_engine ''Core.json'' (USpecPackLoader_new ''Content'')))
        ''Core.json''
      = Some (Manifest (fst (LoadSpecPack test_engine ''Core.json'' (USpecPackLoader_new ''Content''))))"
    by blast+
  from tb b have 3: "bSuccess (fst (LoadSpecPack test_engine ''Broken.json'' (USpecPackLoader_new ''Content''))) = False"
    and 4: "snd (LoadSpecPack test_engine ''Broken.json'' (USpecPackLoader_new ''Content''))
      = USpecPackLoader_new ''Content''"
    by blast+
  from tm m have 5: "bSuccess (fst (LoadSpecPack test_engine ''Missing.json'' (USpecPackLoader_new ''Content''))) = False"
    and 6: "SurfaceSpecsLoaded (fst (LoadSpecPack test_engine ''Missing.json'' (USpecPackLoader_new ''Content'')))
      = 0"
    by blast+
  from 1 2 3 4 5 6 show ?thesis by blast
qed

subsection \<open>Barometric pressure\<close>

lemma GetPressureAtAltitude_formula:
  assumes "PressureScaleHeight c \<noteq> 0"
  shows "GetPressureAtAltitude (Some c) h =
           (if h / 100 \<le> 0 then SeaLevelPressure c
            else max (SeaLevelPressure c * exp (- (h / 100) / PressureScaleHeight c)) 0)"
  using assms by (simp add: GetPressureAtAltitude_def Let_def)

lemma GetPressureAtAltitude_zero_height:
  assumes "PressureScaleHeight c = 0"
  shows "GetPressureAtAltitude (Some c) h = (if h / 100 \<le> 0 then SeaLevelPressure c else 0)"
  using assms by (simp add: GetPressureAtAltitude_def Let_def)

lemma GetPressureAtAltitude_above_sea_level:
  assumes "0 < h / 100"
  shows "0 \<le> GetPressureAtAltitude (Some c) h"
  using assms by (simp add: GetPressureAtAltitude_def Let_def)

lemma GetPressureAtAltitude_nonneg:
  assumes "0 \<le> SeaLevelPressure c"
  shows "0 \<le> GetPressureAtAltitude (Some c) h"
  using assms by (simp add: GetPressureAtAltitude_def Let_def)

lemma barometric_value_antimono:
  fixes p0 H :: real
  assumes p0: "0 \<le> p0" and H: "0 < H" and le: "h1 \<le> h2"
  shows "(if h2 / 100 \<le> 0 then p0 else max (p0 * exp (- (h2 / 100) / H)) 0)
       \<le> (if h1 / 100 \<le> 0 then p0 else max (p0 * exp (- (h1 / 100) / H)) 0)"
proof (cases "h2 / 100 \<le> 0")
  case True
  with le have "h1 / 100 \<le> 0" by simp
  with True show ?thesis by simp
next
  case h2: False
  show ?thesis
  proof (cases "h1 / 100 \<le> 0")
    case True
    from h2 H have "- (h2 / 100) / H \<le> 0"
      by (simp add: divide_nonpos_pos)
    then have "exp (- (h2 / 100) / H) \<le> 1" by simp
    from mult_left_mono [OF this p0] have "p0 * exp (- (h2 / 100) / H) \<le> p0"
      by simp
    with p0 True h2 show ?thesis by simp
  next
    case False
    from le H have "- (h2 / 100) / H \<le> - (h1 / 100) / H"
      by (simp add: divide_right_mono)
    then have "exp (- (h2 / 100) / H) \<le> exp (- (h1 / 100) / H)" by simp
    from mult_left_mono [OF this p0]
    have "p0 * exp (- (h2 / 100) / H) \<le> p0 * exp (- (h1 / 100) / H)" .
    with False h2 show ?thesis by (simp add: max.coboundedI1)
  qed
qed

lemma GetPressureAtAltitude_antimono:
  assumes p0: "0 \<le> SeaLevelPressure c" and H: "0 \<le> PressureScaleHeight c" and le: "h1 \<le> h2"
  shows "GetPressureAtAltitude (Some c) h2 \<le> GetPressureAtAltitude (Some c) h1"
proof (cases "PressureScaleHeight c = 0")
  case True
  from le have "h2 / 100 \<le> 0 \<Longrightarrow> h1 / 100 \<le> 0" by simp
  with p0 show ?thesis
    unfolding GetPressureAtAltitude_zero_height [OF True] by auto
next
  case False
  with H have "0 < PressureScaleHeight c" by simp
  from barometric_value_antimono [OF p0 this le] show ?thesis
    unfolding GetPressureAtAltitude_formula [OF False] .
qed

text \<open>
  Claim C6 as stated fails on the code: nothing in the function keeps the members of the
  config within the ranges the class declares, and with a sea level pressure of -5 the
  returned pressure is -5 at altitude 0 and 0 at altitude 100, so it is negative and then
  rises.
\<close>

theorem pressure_barometric_counterexample:
  "GetPressureAtAltitude (Some (UAtmosphereConfig_new\<lparr>SeaLevelPressure := - 5\<rparr>)) 0 = - 5
   \<and> GetPressureAtAltitude (Some (UAtmosphereConfig_new\<lparr>SeaLevelPressure := - 5\<rparr>)) 100 = 0
   \<and> GetPressureAtAltitude (Some (UAtmosphereConfig_new\<lparr>SeaLevelPressure := - 5\<rparr>)) 0 < 0
   \<and> GetPressureAtAltitude (Some (UAtmosphereConfig_new\<lparr>SeaLevelPressure := - 5\<rparr>)) 0
       < GetPressureAtAltitude (Some (UAtmosphereConfig_new\<lparr>SeaLevelPressure := - 5\<rparr>)) 100"
proof -
  have n: "- 5 * exp (- (100 / 100) / 8500 :: real) \<le> 0"
    by (simp add: mult_le_0_iff)
  have a: "GetPressureAtAltitude (Some (UAtmosphereConfig_new\<lparr>SeaLevelPressure := - 5\<rparr>)) 0 = - 5"
    by (simp add: GetPressureAtAltitude_def UAtmosphereConfig_new_def)
  have b: "GetPressureAtAltitude (Some (UAtmosphereConfig_new\<lparr>SeaLevelPressure := - 5\<rparr>)) 100 = 0"
    using n by (simp add: GetPressureAtAltitude_def UAtmosphereConfig_new_def Let_def max_def)
  show ?thesis
    unfolding a b by simp
qed

text \<open>
  Claim C6, amended. With an atmosphere config present, \<open>GetPressureAtAltitude(h)\<close>
  returns \<open>SeaLevelPressure\<close> when \<open>h / 100 \<le> 0\<close>, and otherwise
  \<open>SeaLevelPressure * exp(-(h / 100) / PressureScaleHeight)\<close> clamped to be non-negative
  (which is 0 when the scale height is 0). The returned pressure is non-negative above
  sea level, and at every altitude when \<open>SeaLevelPressure\<close> is non-negative; it is
  monotonically non-increasing in the altitude when \<open>SeaLevelPressure\<close> and
  \<open>PressureScaleHeight\<close> are non-negative. Both hold for a config whose members lie in
  the ranges the class declares, which the function itself does not check.
\<close>

theorem pressure_barometric:
  "(PressureScaleHeight c \<noteq> 0 \<longrightarrow>
      GetPressureAtAltitude (Some c) h =
        (if h / 100 \<le> 0 then SeaLevelPressure c
         else max (SeaLevelPressure c * exp (- (h / 100) / PressureScaleHeight c)) 0))
   \<and> (PressureScaleHeight c = 0 \<longrightarrow>
      GetPressureAtAltitude (Some c) h = (if h / 100 \<le> 0 then SeaLevelPressure c else 0))
   \<and> (0 < h / 100 \<or> 0 \<le> SeaLevelPressure c \<longrightarrow> 0 \<le> GetPressureAtAltitude (Some c) h)
   \<and> (0 \<le> SeaLevelPressure c \<and> 0 \<le> PressureScaleHeight c \<longrightarrow>
        (\<forall>h1 h2. h1 \<le> h2 \<longrightarrow>
           GetPressureAtAltitude (Some c) h2 \<le> GetPressureAtAltitude (Some c) h1))
   \<and> (UAtmosphereConfig_in_range c \<longrightarrow>
        0 \<le> GetPressureAtAltitude (Some c) h
        \<and> (\<forall>h1 h2. h1 \<le> h2 \<longrightarrow>
           GetPressureAtAltitude (Some c) h2 \<le> GetPressureAtAltitude (Some c) h1))"
proof -
  have r: "0 \<le> SeaLevelPressure c \<and> 0 \<le> PressureScaleHeight c" if "UAtmosphereConfig_in_range c"
    using that by (simp add: UAtmosphereConfig_in_range_def)
  show ?thesis
    using GetPressureAtAltitude_formula [of c h] GetPressureAtAltitude_zero_height [of c h]
      GetPressureAtAltitude_above_sea_level [of h c] GetPressureAtAltitude_nonneg [of c h]
      GetPressureAtAltitude_antimono [of c] r
    by blast
qed

theorem pressure_barometric_witness:
  "GetPressureAtAltitude (Some UAtmosphereConfig_new) 0 = 101.325
   \<and> GetPressureAtAltitude (Some UAtmosphereConfig_new) 850000 = 101.325 * exp (- 1)
   \<and> GetPressureAtAltitude (Some UAtmosphereConfig_new) 850000
       \<le> GetPressureAtAltitude (Some UAtmosphereConfig_new) 0
   \<and> 0 \<le> GetPressureAtAltitude (Some UAtmosphereConfig_new) 850000
   \<and> GetPressureAtAltitude (Some (UAtmosphereConfig_new\<lparr>PressureScaleHeight := 0\<rparr>)) 100 = 0"
proof -
  have r: "UAtmosphereConfig_in_range UAtmosphereConfig_new"
    by (simp add: UAtmosphereConfig_in_range_def UAtmosphereConfig_new_def)
  have nz: "PressureScaleHeight UAtmosphereConfig_new \<noteq> 0"
    by (simp add: UAtmosphereConfig_new_def)
  have z: "PressureScaleHeight (UAtmosphereConfig_new\<lparr>PressureScaleHeight := 0\<rparr>) = 0"
    by simp
  note t = pressure_barometric [of UAtmosphereConfig_new]
  from t [of 0] nz have "GetPressureAtAltitude (Some UAtmosphereConfig_new) 0 =
        (if (0::real) / 100 \<le> 0 then SeaLevelPressure UAtmosphereConfig_new
         else max (SeaLevelPressure UAtmosphereConfig_new
                * exp (- (0 / 100) / PressureScaleHeight UAtmosphereConfig_new)) 0)"
    by blast
  then have a: "GetPressureAtAltitude (Some UAtmosphereConfig_new) 0 = 101.325"
    by (simp add: UAtmosphereConfig_new_def)
  from t [of 850000] nz have "GetPressureAtAltitude (Some UAtmosphereConfig_new) 850000 =
        (if (850000::real) / 100 \<le> 0 then SeaLevelPressure UAtmosphereConfig_new
         else max (SeaLevelPressure UAtmosphereConfig_new
                * exp (- (850000 / 100) / PressureScaleHeight UAtmosphereConfig_new)) 0)"
    by blast
  then have b: "GetPressureAtAltitude (Some UAtmosphereConfig_new) 850000 = 101.325 * exp (- 1)"
    by (simp add: UAtmosphereConfig_new_def max_def)
  have "(0::real) \<le> 850000" by simp
  with t [of 0] r have c: "GetPressureAtAltitude (Some UAtmosphereConfig_new) 850000
       \<le> GetPressureAtAltitude (Some UAtmosphereConfig_new) 0"
    by blast
  from t [of 850000] r have d: "0 \<le> GetPressureAtAltitude (Some UAtmosphereConfig_new) 850000"
    by blast
  from pressure_barometric [of "UAtmosphereConfig_new\<lparr>PressureScaleHeight := 0\<rparr>" 100] z
  have "GetPressureAtAltitude (Some (UAtmosphereConfig_new\<lparr>PressureScaleHeight := 0\<rparr>)) 100
      = (if (100::real) / 100 \<le> 0
         then SeaLevelPressure (UAtmosphereConfig_new\<lparr>PressureScaleHeight := 0\<rparr>) else 0)"
    by blast
  then have e: "GetPressureAtAltitude (Some (UAtmosphereConfig_new\<lparr>PressureScaleHeight := 0\<rparr>)) 100 = 0"
    by simp
  from a b c d e show ?thesis by blast
qed

subsection \<open>Remainders and angle wrapping\<close>

lemma TwoPi_pos: "0 < TwoPi"
  by (simp add: TwoPi_def)

lemma TwoPi_not_small: "\<not> \<bar>TwoPi\<bar> \<le> 0.00000001"
  by (simp add: TwoPi_def)

lemma trunc_small: "- 1 < q \<Longrightarrow> q < 1 \<Longrightarrow> trunc_toward_zero q = 0"
  unfolding trunc_toward_zero_def
  by (auto simp: floor_eq_iff ceiling_eq_iff)

lemma Fmod_one_frac:
  "FMath_Fmod x 1 = (if 0 \<le> x \<or> x = of_int \<lfloor>x\<rfloor> then frac x else frac x - 1)"
  unfolding FMath_Fmod_def trunc_toward_zero_def frac_def
  by (auto simp: ceiling_altdef)

lemma Wrap0ToTwoPi_small:
  assumes "- TwoPi < r" and "r < TwoPi"
  shows "Wrap0ToTwoPi r = (if r < 0 then r + TwoPi else r)"
proof -
  from assms TwoPi_pos have "- 1 < r / TwoPi" "r / TwoPi < 1"
    by (simp_all add: field_simps)
  then have "trunc_toward_zero (r / TwoPi) = 0"
    by (rule trunc_small)
  then have "FMath_Fmod r TwoPi = r"
    using TwoPi_not_small by (simp add: FMath_Fmod_def)
  then show ?thesis
    by (simp add: Wrap0ToTwoPi_def Let_def)
qed

lemma Wrap_Fmod_frac: "Wrap0ToTwoPi (TwoPi * FMath_Fmod x 1) = TwoPi * frac x"
proof (cases "0 \<le> x \<or> x = of_int \<lfloor>x\<rfloor>")
  case True
  then have f: "FMath_Fmod x 1 = frac x"
    by (simp add: Fmod_one_frac)
  have "0 \<le> frac x" "frac x < 1"
    by (simp_all add: frac_lt_1)
  with TwoPi_pos have r: "0 \<le> TwoPi * frac x" "TwoPi * frac x < TwoPi"
    by simp_all
  from r(1) TwoPi_pos have "- TwoPi < TwoPi * frac x"
    by linarith
  from Wrap0ToTwoPi_small [OF this r(2)] r(1) show ?thesis
    unfolding f by simp
next
  case False
  then have f: "FMath_Fmod x 1 = frac x - 1"
    by (simp add: Fmod_one_frac)
  from False have "frac x \<noteq> 0"
    by (auto simp: frac_def)
  moreover have "0 \<le> frac x" "frac x < 1"
    by (simp_all add: frac_lt_1)
  ultimately have b: "0 < frac x" "frac x < 1"
    by simp_all
  with TwoPi_pos have r: "TwoPi * (frac x - 1) < 0" "- TwoPi < TwoPi * (frac x - 1)"
    by (simp_all add: algebra_simps mult_less_0_iff)
  from r(1) TwoPi_pos have "TwoPi * (frac x - 1) < TwoPi"
    by linarith
  from Wrap0ToTwoPi_small [OF r(2) this] r(1)
  have "Wrap0ToTwoPi (TwoPi * (frac x - 1)) = TwoPi * (frac x - 1) + TwoPi"
    by (simp only: if_True)
  then show ?thesis
    unfolding f by (simp add: algebra_simps)
qed

lemma trunc_remainder_bounds:
  "- 1 < x - of_int (trunc_toward_zero x) \<and> x - of_int (trunc_toward_zero x) < 1"
proof (cases "0 \<le> x")
  case True
  have "of_int \<lfloor>x\<rfloor> \<le> x" "x < of_int \<lfloor>x\<rfloor> + 1"
    by linarith+
  then have "- 1 < x - of_int \<lfloor>x\<rfloor> \<and> x - of_int \<lfloor>x\<rfloor> < 1"
    by linarith
  with True show ?thesis
    by (simp only: trunc_toward_zero_def if_True)
next
  case False
  have "x \<le> of_int \<lceil>x\<rceil>" "of_int \<lceil>x\<rceil> < x + 1"
    by linarith+
  then have "- 1 < x - of_int \<lceil>x\<rceil> \<and> x - of_int \<lceil>x\<rceil> < 1"
    by linarith
  with False show ?thesis
    by (simp only: trunc_toward_zero_def if_False)
qed

lemma Fmod_one: "FMath_Fmod x 1 = x - of_int (trunc_toward_zero x)"
  by (simp add: FMath_Fmod_def)

lemma Wrap_Fmod_wrapped:
  "Wrap0ToTwoPi (TwoPi * FMath_Fmod x 1) =
     (if x - of_int (trunc_toward_zero x) < 0
      then TwoPi * (x - of_int (trunc_toward_zero x)) + TwoPi
      else TwoPi * (x - of_int (trunc_toward_zero x)))"
proof -
  define f where "f = x - of_int (trunc_toward_zero x)"
  have b: "- 1 < f" "f < 1"
    unfolding f_def using trunc_remainder_bounds [of x] by blast+
  from b(1) TwoPi_pos have "TwoPi * (- 1) < TwoPi * f"
    by (rule mult_strict_left_mono)
  then have l: "- TwoPi < TwoPi * f"
    by simp
  from b(2) TwoPi_pos have "TwoPi * f < TwoPi * 1"
    by (rule mult_strict_left_mono)
  then have u: "TwoPi * f < TwoPi"
    by simp
  have s: "TwoPi * f < 0 \<longleftrightarrow> f < 0"
    using TwoPi_pos by (simp add: mult_less_0_iff)
  from Wrap0ToTwoPi_small [OF l u] show ?thesis
    unfolding Fmod_one f_def [symmetric] s .
qed


subsection \<open>Lunar orbit\<close>

















subsection \<open>Sidereal time\<close>

lemma arctan_term_nonneg: "0 \<le> x \<Longrightarrow> 0 \<le> arctan_term x k"
  by (simp add: arctan_term_def)

lemma arctan_term_decreasing:
  assumes "0 \<le> x" and "x \<le> 1"
  shows "arctan_term x (Suc k) \<le> arctan_term x k"
proof -
  have p: "x ^ (Suc k * 2 + 1) \<le> x ^ (k * 2 + 1)"
    using assms by (intro power_decreasing) simp_all
  have d: "1 / real (Suc k * 2 + 1) \<le> 1 / real (k * 2 + 1)"
    by (simp add: field_simps)
  have "1 / real (Suc k * 2 + 1) * x ^ (Suc k * 2 + 1) \<le> 1 / real (k * 2 + 1) * x ^ (k * 2 + 1)"
    using p d assms by (intro mult_mono) simp_all
  then show ?thesis
    by (simp only: arctan_term_def)
qed

lemma arctan_partial_sums:
  assumes "0 \<le> x" and "x \<le> 1"
  shows "(\<Sum>i<2 * n. (- 1) ^ i * arctan_term x i) \<le> arctan x"
    and "arctan x \<le> (\<Sum>i<2 * m + 1. (- 1) ^ i * arctan_term x i)"
proof -
  from assms have ax: "\<bar>x\<bar> \<le> 1" by simp
  have z: "arctan_term x \<longlonglongrightarrow> 0"
    using zeroseq_arctan_series [OF ax] by (simp add: arctan_term_def [abs_def])
  have s: "arctan x = (\<Sum>k. (- 1) ^ k * arctan_term x k)"
    using arctan_series [OF ax] by (simp add: arctan_term_def)
  note L = summable_Leibniz' [OF z arctan_term_nonneg [OF assms(1)] arctan_term_decreasing [OF assms]]
  show "(\<Sum>i<2 * n. (- 1) ^ i * arctan_term x i) \<le> arctan x"
    unfolding s by (rule L(2))
  show "arctan x \<le> (\<Sum>i<2 * m + 1. (- 1) ^ i * arctan_term x i)"
    unfolding s by (rule L(4))
qed

lemma TwoPi_less_2pi: "TwoPi < 2 * pi"
proof -
  have a: "(\<Sum>i<2 * 12. (- 1) ^ i * arctan_term (1 / 5) i) \<le> arctan (1 / 5)"
    by (rule arctan_partial_sums(1)) simp_all
  have b: "arctan (1 / 239) \<le> (\<Sum>i<2 * 3 + 1. (- 1) ^ i * arctan_term (1 / 239) i)"
    by (rule arctan_partial_sums(2)) simp_all
  have m: "pi = 16 * arctan (1 / 5) - 4 * arctan (1 / 239)"
    using machin by simp
  have n: "TwoPi / 2 < 16 * (\<Sum>i<2 * 12. (- 1) ^ i * arctan_term (1 / 5) i)
      - 4 * (\<Sum>i<2 * 3 + 1. (- 1) ^ i * arctan_term (1 / 239) i)"
    by (simp add: TwoPi_def arctan_term_def eval_nat_numeral)
  from a b m n show ?thesis
    by linarith
qed

lemma TwoPi_close_2pi: "2 * pi < TwoPi + 1 / 10 ^ 32"
proof -
  define U where "U = (\<Sum>i<2 * 12 + 1. (- 1) ^ i * arctan_term (1 / 5) i)"
  define L where "L = (\<Sum>i<2 * 4. (- 1) ^ i * arctan_term (1 / 239) i)"
  define eps :: real where "eps = 1 / 10 ^ 32"
  have a: "arctan (1 / 5) \<le> U"
    unfolding U_def by (rule arctan_partial_sums(2)) simp_all
  have b: "L \<le> arctan (1 / 239)"
    unfolding L_def by (rule arctan_partial_sums(1)) simp_all
  have m: "pi = 16 * arctan (1 / 5) - 4 * arctan (1 / 239)"
    using machin by simp
  have n: "16 * U - 4 * L < (TwoPi + eps) / 2"
    by (simp add: U_def L_def TwoPi_def eps_def arctan_term_def eval_nat_numeral)
  from a b have "16 * arctan (1 / 5) - 4 * arctan (1 / 239) \<le> 16 * U - 4 * L"
    by linarith
  with m have "pi \<le> 16 * U - 4 * L"
    by simp
  from this n have "pi < (TwoPi + eps) / 2"
    by (rule le_less_trans)
  then have "2 * pi < TwoPi + eps"
    by (simp add: field_simps)
  then show ?thesis
    by (simp only: eps_def)
qed

text \<open>
  Claim C4. GMST is computed by the stated closed form. For every Julian date \<open>JD\<close>, with
  \<open>x = (18.697374558 + 24.06570982441908 * (JD - 2451545.0)) / 24\<close>, the result of
  \<open>ComputeGMSTAngleRad_FromJD\<close> is \<open>TwoPi\<close> times the fractional part of \<open>x\<close> (the part
  after the integer part, with the sign of \<open>x\<close>), wrapped by adding \<open>TwoPi\<close> when it is
  negative; that is \<open>TwoPi * frac x\<close> with \<open>frac x = x - floor x\<close>. The result lies in the
  half-open interval from 0 to \<open>2 * pi\<close>. \<open>TwoPi\<close> is the source's literal for \<open>2 * pi\<close>,
  which exceeds it by less than \<open>1 / 10 ^ 32\<close>; so the result differs from \<open>2 * pi * frac x\<close>
  by less than \<open>1 / 10 ^ 32\<close>.
\<close>

theorem gmst_closed_form:
  "ComputeGMSTAngleRad_FromJD JD
     = (let x = (18.697374558 + 24.06570982441908 * (JD - 2451545)) / 24;
            r = TwoPi * (x - of_int (trunc_toward_zero x))
        in if r < 0 then r + TwoPi else r)
   \<and> ComputeGMSTAngleRad_FromJD JD
     = TwoPi * frac ((18.697374558 + 24.06570982441908 * (JD - 2451545)) / 24)
   \<and> 0 \<le> ComputeGMSTAngleRad_FromJD JD
   \<and> ComputeGMSTAngleRad_FromJD JD < 2 * pi
   \<and> \<bar>ComputeGMSTAngleRad_FromJD JD
        - 2 * pi * frac ((18.697374558 + 24.06570982441908 * (JD - 2451545)) / 24)\<bar> < 1 / 10 ^ 32"
proof -
  define x where "x = (18.697374558 + 24.06570982441908 * (JD - 2451545)) / 24"
  define f where "f = frac x"
  have s: "TwoPi * (x - of_int (trunc_toward_zero x)) < 0 \<longleftrightarrow> x - of_int (trunc_toward_zero x) < 0"
    using TwoPi_pos by (simp add: mult_less_0_iff)
  have w: "ComputeGMSTAngleRad_FromJD JD
     = (let r = TwoPi * (x - of_int (trunc_toward_zero x)) in if r < 0 then r + TwoPi else r)"
    unfolding Let_def s
    by (simp only: ComputeGMSTAngleRad_FromJD_def Let_def Wrap_Fmod_wrapped x_def)
  have e: "ComputeGMSTAngleRad_FromJD JD = TwoPi * f"
    by (simp only: ComputeGMSTAngleRad_FromJD_def Let_def Wrap_Fmod_frac f_def x_def)
  have f: "0 \<le> f" "f < 1"
    by (simp_all add: f_def frac_lt_1)
  with TwoPi_pos have r: "0 \<le> TwoPi * f" "TwoPi * f < TwoPi"
    by simp_all
  from r(2) TwoPi_less_2pi have u: "TwoPi * f < 2 * pi"
    by linarith
  define d where "d = 2 * pi - TwoPi"
  from TwoPi_less_2pi TwoPi_close_2pi have d: "0 < d" "d < 1 / 10 ^ 32"
    by (simp_all add: d_def)
  have n: "TwoPi * f - 2 * pi * f = - (d * f)"
    by (simp add: d_def algebra_simps)
  have "0 \<le> d * f"
    using d(1) f(1) by simp
  then have "\<bar>TwoPi * f - 2 * pi * f\<bar> = d * f"
    unfolding n by simp
  also have "d * f \<le> d * 1"
    using d(1) f(2) by (intro mult_left_mono) simp_all
  finally have c: "\<bar>TwoPi * f - 2 * pi * f\<bar> < 1 / 10 ^ 32"
    using d(2) by simp
  from w have w': "ComputeGMSTAngleRad_FromJD JD
     = (let x = (18.697374558 + 24.06570982441908 * (JD - 2451545)) / 24;
            r = TwoPi * (x - of_int (trunc_toward_zero x))
        in if r < 0 then r + TwoPi else r)"
    unfolding x_def Let_def .
  from e r(1) u c have rest: "ComputeGMSTAngleRad_FromJD JD
     = TwoPi * frac ((18.697374558 + 24.06570982441908 * (JD - 2451545)) / 24)
   \<and> 0 \<le> ComputeGMSTAngleRad_FromJD JD
   \<and> ComputeGMSTAngleRad_FromJD JD < 2 * pi
   \<and> \<bar>ComputeGMSTAngleRad_FromJD JD
        - 2 * pi * frac ((18.697374558 + 24.06570982441908 * (JD - 2451545)) / 24)\<bar> < 1 / 10 ^ 32"
    unfolding f_def x_def by simp
  from w' rest show ?thesis
    by (rule conjI)
qed

theorem gmst_closed_form_witness:
  "ComputeGMSTAngleRad_FromJD 2451545 = TwoPi * 0.77905727325
   \<and> ComputeGMSTAngleRad_FromJD 2451544 = TwoPi * 0.776319363899205
   \<and> ComputeGMSTAngleRad_FromJD 2451544 < 2 * pi"
proof -
  have a: "frac ((18.697374558 + 24.06570982441908 * (2451545 - 2451545)) / 24 :: real) = 0.77905727325"
    by (subst frac_unique_iff) simp
  have b: "frac ((18.697374558 + 24.06570982441908 * (2451544 - 2451545)) / 24 :: real) = 0.776319363899205"
    by (subst frac_unique_iff) simp
  note t = gmst_closed_form [THEN conjunct2]
  from t [of 2451545, THEN conjunct1]
  have 1: "ComputeGMSTAngleRad_FromJD 2451545 = TwoPi * 0.77905727325"
    by (simp only: a)
  from t [of 2451544, THEN conjunct1]
  have 2: "ComputeGMSTAngleRad_FromJD 2451544 = TwoPi * 0.776319363899205"
    by (simp only: b)
  from t [of 2451544] have 3: "ComputeGMSTAngleRad_FromJD 2451544 < 2 * pi"
    by blast
  from 1 2 3 show ?thesis by blast
qed


text \<open>The same value, computed by running the model of the function.\<close>

lemma ComputeGMST_at_2451544: "ComputeGMSTAngleRad_FromJD 2451544 = TwoPi * 0.776319363899205"
  by (simp add: ComputeGMSTAngleRad_FromJD_def FMath_Fmod_def Wrap0ToTwoPi_def trunc_toward_zero_def
        Let_def TwoPi_def ceiling_eq_iff floor_eq_iff)


end
